theory Spec2Isabelle
  imports Complex_Main "HOL-Library.Word"
begin

section \<open>The receive, persist, replay and erase cycle of main.c\<close>

text \<open>
  The program is the ESP32 firmware of \<^verbatim>\<open>main/main.c\<close>: \<^verbatim>\<open>rx_task\<close> polls the UART,
  stores what it received under the NVS key \<^verbatim>\<open>"uart"\<close>, and calls \<^verbatim>\<open>tx_task\<close>, which reads
  the key back and hands the buffer to \<^verbatim>\<open>sendData\<close>; \<^verbatim>\<open>sendData\<close> writes it to the UART and
  erases the store.

  The functions of the repository (\<^verbatim>\<open>sendData\<close>, \<^verbatim>\<open>tx_task\<close>, the body of the loop of
  \<^verbatim>\<open>rx_task\<close>) are translated statement by statement. What they call is the ESP-IDF and
  FreeRTOS library, which is not part of the repository: each library call is a function
  on an explicit \<open>world\<close> (driver receive buffer, store, tick counter, trace of the calls
  made), and what the firmware cannot decide (the bytes on the line, whether a store
  operation succeeds, how many ticks a call takes, what \<^verbatim>\<open>malloc\<close> leaves in a fresh
  block) comes from a record \<open>env\<close>, one per iteration of the loop.
\<close>

subsection \<open>Data\<close>

type_synonym byte = "8 word"

text \<open>\<^verbatim>\<open>TickType_t\<close> is an unsigned 32-bit counter: subtraction wraps around.\<close>

type_synonym TickType_t = "32 word"

datatype esp_err_t = ESP_OK | ESP_FAIL | ESP_ERR_NVS_NOT_FOUND | ESP_ERR_NVS_INVALID_LENGTH

text \<open>
  A C \<^verbatim>\<open>float\<close> as far as the program can tell its kinds apart: the two infinities and NaN
  of IEEE 754, and the finite values. A finite value carries the exact quotient; the
  rounding to 24 bits of mantissa is not modelled, and nothing below depends on the
  digits of a finite value.
\<close>

datatype fval = Finite rat | PosInf | NegInf | NaN

datatype logmsg =
    Waiting
  | ReadBytes int "byte list"
  | ReceptionSpeed fval
  | Wrote int
  | TransmissionSpeed fval

text \<open>
  One event per library call with an effect outside the task, in program order.
  \<open>UartRead t got\<close>: the wait in ticks and the bytes returned; \<open>UartWrite src n\<close>: the
  bytes submitted and the count the driver returned; \<open>Delay n\<close>: the ticks passed to
  \<^verbatim>\<open>vTaskDelay\<close>; the store events carry the status the call returned.
\<close>

datatype event =
    LogI string logmsg
  | UartRead nat "byte list"
  | UartWrite "byte list" int
  | NvsSetStr string "byte list" esp_err_t
  | NvsGetStr string esp_err_t
  | NvsEraseAll esp_err_t
  | NvsCommit esp_err_t
  | Delay nat

record world =
  uart_rx :: "byte list"
  nvs_live :: "string \<rightharpoonup> byte list"
  nvs_flash :: "string \<rightharpoonup> byte list"
  ticks :: TickType_t
  trace :: "event list"

datatype tx_outcome = TxAll | TxShort nat

record env =
  arriving :: "byte list"
  rx_ticks :: TickType_t
  nvs_set_ok :: bool
  rx_commit_ok :: bool
  heap :: "nat \<Rightarrow> byte"
  tx_result :: tx_outcome
  tx_ticks :: TickType_t
  erase_ok :: bool
  tx_commit_ok :: bool

text \<open>
  What C leaves undefined: \<^verbatim>\<open>strlen\<close> running off the end of a buffer that holds no
  null byte, a write past the end of a buffer, and the division by
  \<^verbatim>\<open>portTICK_PERIOD_MS\<close> when that macro is 0.
\<close>

datatype fault = StrlenOverrun | BufferOverrun | DivideByZero

subsection \<open>Constants\<close>

definition RX_BUF_SIZE :: nat where
  "RX_BUF_SIZE = 1024"

definition TX_TASK_TAG :: string where
  "TX_TASK_TAG = ''TX_TASK''"

definition RX_TASK_TAG :: string where
  "RX_TASK_TAG = ''RX_TASK''"

text \<open>
  \<^verbatim>\<open>uart_init\<close> installs the driver with a receive buffer of \<^verbatim>\<open>RX_BUF_SIZE * 2\<close> bytes and
  no transmit buffer.
\<close>

definition uart_rx_buffer_size :: nat where
  "uart_rx_buffer_size = RX_BUF_SIZE * 2"

text \<open>
  \<^verbatim>\<open>configTICK_RATE_HZ\<close> and \<^verbatim>\<open>portTICK_PERIOD_MS\<close> come from the FreeRTOS configuration,
  which is not in the repository. The tick rate is the parameter \<open>hz\<close> of every function
  below; FreeRTOS defines the period from it as \<^verbatim>\<open>(TickType_t) 1000 / configTICK_RATE_HZ\<close>.
\<close>

definition portTICK_PERIOD_MS :: "nat \<Rightarrow> nat" where
  "portTICK_PERIOD_MS hz = 1000 div hz"

subsection \<open>C strings and buffers\<close>

text \<open>\<^verbatim>\<open>strlen\<close>: the index of the first null byte; \<open>None\<close> when the buffer has none.\<close>

fun c_strlen :: "byte list \<Rightarrow> nat option" where
  "c_strlen [] = None"
| "c_strlen (b # bs) = (if b = 0 then Some 0 else map_option Suc (c_strlen bs))"

text \<open>A fresh block of \<open>n\<close> bytes: \<^verbatim>\<open>malloc\<close> does not initialise it.\<close>

definition malloc :: "nat \<Rightarrow> (nat \<Rightarrow> byte) \<Rightarrow> byte list" where
  "malloc n h = map h [0..<n]"

text \<open>Copying \<open>src\<close> to the start of a buffer that is long enough for it.\<close>

definition store_at0 :: "byte list \<Rightarrow> byte list \<Rightarrow> byte list" where
  "store_at0 src buf = src @ drop (length src) buf"

subsection \<open>Float arithmetic of the speed computation\<close>

text \<open>
  \<^verbatim>\<open>n / time_taken\<close> with \<open>n\<close> an \<^verbatim>\<open>int\<close> and \<^verbatim>\<open>time_taken\<close> a non-negative \<^verbatim>\<open>float\<close>:
  IEEE 754 division, where a zero divisor gives an infinity of the sign of \<open>n\<close>, or NaN
  for \<open>0 / 0\<close>.
\<close>

definition float_div :: "int \<Rightarrow> nat \<Rightarrow> fval" where
  "float_div n d =
     (if d = 0 then (if 0 < n then PosInf else if n < 0 then NegInf else NaN)
      else Finite (of_int n / of_nat d))"

text \<open>The product with the tick rate, a non-negative integer constant.\<close>

definition float_mul :: "fval \<Rightarrow> nat \<Rightarrow> fval" where
  "float_mul x k =
     (case x of
        Finite q \<Rightarrow> Finite (q * of_nat k)
      | PosInf \<Rightarrow> (if k = 0 then NaN else PosInf)
      | NegInf \<Rightarrow> (if k = 0 then NaN else NegInf)
      | NaN \<Rightarrow> NaN)"

subsection \<open>The library calls\<close>

text \<open>
  Modelled from the spec: the log output and the Clock, which are \<^verbatim>\<open>ESP_LOGI\<close> of ESP-IDF and
  \<^verbatim>\<open>xTaskGetTickCount\<close> and \<^verbatim>\<open>vTaskDelay\<close> of FreeRTOS. A log line is an event; the tick
  counter advances by what the environment says a blocking call took, and by the argument
  of a delay.
\<close>

definition ESP_LOGI :: "string \<Rightarrow> logmsg \<Rightarrow> world \<Rightarrow> world" where
  "ESP_LOGI tag m w = w\<lparr>trace := trace w @ [LogI tag m]\<rparr>"

definition xTaskGetTickCount :: "world \<Rightarrow> TickType_t" where
  "xTaskGetTickCount w = ticks w"

definition vTaskDelay :: "nat \<Rightarrow> world \<Rightarrow> world" where
  "vTaskDelay n w = w\<lparr>ticks := ticks w + of_nat n, trace := trace w @ [Delay n]\<rparr>"

text \<open>
  Modelled from the spec: the Transport's \<^verbatim>\<open>receive(buffer, max_len, timeout)\<close>, which is
  \<^verbatim>\<open>uart_read_bytes(UART_NUM_1, buf, length, ticks_to_wait)\<close> of the ESP-IDF driver, a
  library outside the repository. The bytes that arrive during the wait join the driver's
  receive buffer, of the size \<^verbatim>\<open>uart_init\<close> installs (what does not fit is lost); the call
  returns the first \<open>length\<close> bytes of that buffer, fewer when fewer are there, none on a
  timeout. What it does not return stays in the driver's buffer.
\<close>

definition uart_read_bytes :: "env \<Rightarrow> nat \<Rightarrow> nat \<Rightarrow> world \<Rightarrow> byte list \<times> world" where
  "uart_read_bytes e len ticks_to_wait w =
     (let avail = take uart_rx_buffer_size (uart_rx w @ arriving e);
          got = take len avail
      in (got, w\<lparr>uart_rx := drop len avail,
                 ticks := ticks w + rx_ticks e,
                 trace := trace w @ [UartRead ticks_to_wait got]\<rparr>))"

text \<open>
  Modelled from the spec: the Transport's \<^verbatim>\<open>transmit(buffer, len)\<close>, which is
  \<^verbatim>\<open>uart_write_bytes(UART_NUM_1, src, size)\<close> of the ESP-IDF driver. It returns the number
  of bytes pushed to the transmitter: all of them or, on a short write, fewer.
\<close>

fun tx_accepted :: "tx_outcome \<Rightarrow> nat \<Rightarrow> nat" where
  "tx_accepted TxAll len = len"
| "tx_accepted (TxShort k) len = min k len"

definition uart_write_bytes :: "env \<Rightarrow> byte list \<Rightarrow> nat \<Rightarrow> world \<Rightarrow> int \<times> world" where
  "uart_write_bytes e src len w =
     (let n = tx_accepted (tx_result e) len
      in (int n, w\<lparr>ticks := ticks w + tx_ticks e,
                   trace := trace w @ [UartWrite (take len src) (int n)]\<rparr>))"

text \<open>
  Modelled from the spec: the Durable Store's \<^verbatim>\<open>write\<close>, \<^verbatim>\<open>commit\<close> and \<^verbatim>\<open>erase_all\<close>, which
  are \<^verbatim>\<open>nvs_set_str\<close>, \<^verbatim>\<open>nvs_commit\<close> and \<^verbatim>\<open>nvs_erase_all\<close> of the ESP-IDF library. A write
  replaces the value under the key and is separate from its commit: \<open>nvs_live\<close> is what
  the open handle reads and writes, \<open>nvs_flash\<close> what a successful commit has made
  durable. Each call can fail, and then changes nothing. \<^verbatim>\<open>nvs_set_str\<close> is given the bytes
  of the C string, without its terminator.
\<close>

definition nvs_set_str :: "env \<Rightarrow> string \<Rightarrow> byte list \<Rightarrow> world \<Rightarrow> esp_err_t \<times> world" where
  "nvs_set_str e key val w =
     (if nvs_set_ok e
      then (ESP_OK, w\<lparr>nvs_live := (nvs_live w)(key \<mapsto> val),
                      trace := trace w @ [NvsSetStr key val ESP_OK]\<rparr>)
      else (ESP_FAIL, w\<lparr>trace := trace w @ [NvsSetStr key val ESP_FAIL]\<rparr>))"

definition nvs_commit :: "bool \<Rightarrow> world \<Rightarrow> esp_err_t \<times> world" where
  "nvs_commit ok w =
     (if ok
      then (ESP_OK, w\<lparr>nvs_flash := nvs_live w, trace := trace w @ [NvsCommit ESP_OK]\<rparr>)
      else (ESP_FAIL, w\<lparr>trace := trace w @ [NvsCommit ESP_FAIL]\<rparr>))"

definition nvs_erase_all :: "env \<Rightarrow> world \<Rightarrow> esp_err_t \<times> world" where
  "nvs_erase_all e w =
     (if erase_ok e
      then (ESP_OK, w\<lparr>nvs_live := Map.empty, trace := trace w @ [NvsEraseAll ESP_OK]\<rparr>)
      else (ESP_FAIL, w\<lparr>trace := trace w @ [NvsEraseAll ESP_FAIL]\<rparr>))"

text \<open>
  Modelled from the spec: the Durable Store's \<^verbatim>\<open>read(key, max_len)\<close>, which is
  \<^verbatim>\<open>nvs_get_str(handle, key, out_value, &length)\<close> of the ESP-IDF library. With no entry
  under the key it returns \<^verbatim>\<open>ESP_ERR_NVS_NOT_FOUND\<close> and touches neither the buffer nor the
  length; otherwise the string and its terminator are copied to the start of the buffer
  and the length is set. For an entry that does not fit with its terminator the library
  returns \<^verbatim>\<open>ESP_ERR_NVS_INVALID_LENGTH\<close> with the required length and copies nothing; no
  statement about the claims depends on that case. The result is the status, the buffer,
  the length and the world.
\<close>

definition nvs_get_str ::
  "string \<Rightarrow> byte list \<Rightarrow> nat \<Rightarrow> world \<Rightarrow> esp_err_t \<times> byte list \<times> nat \<times> world" where
  "nvs_get_str key out_value len w =
     (case nvs_live w key of
        None \<Rightarrow>
          (ESP_ERR_NVS_NOT_FOUND, out_value, len,
           w\<lparr>trace := trace w @ [NvsGetStr key ESP_ERR_NVS_NOT_FOUND]\<rparr>)
      | Some s \<Rightarrow>
          if len < length s + 1
          then (ESP_ERR_NVS_INVALID_LENGTH, out_value, length s + 1,
                w\<lparr>trace := trace w @ [NvsGetStr key ESP_ERR_NVS_INVALID_LENGTH]\<rparr>)
          else (ESP_OK, store_at0 (s @ [0]) out_value, length s + 1,
                w\<lparr>trace := trace w @ [NvsGetStr key ESP_OK]\<rparr>))"

subsection \<open>sendData\<close>

definition sendData :: "nat \<Rightarrow> env \<Rightarrow> string \<Rightarrow> byte list \<Rightarrow> world \<Rightarrow> fault + world" where
  "sendData hz e logName data w =
     (case c_strlen data of
        None \<Rightarrow> Inl StrlenOverrun
      | Some len \<Rightarrow>
          let start_time = xTaskGetTickCount w;
              (txBytes, w1) = uart_write_bytes e data len w;
              end_time = xTaskGetTickCount w1;
              w2 = ESP_LOGI logName (Wrote txBytes) w1;
              time_taken = unat (end_time - start_time);
              speed = float_mul (float_div txBytes time_taken) hz;
              w3 = ESP_LOGI logName (TransmissionSpeed speed) w2;
              w4 = snd (nvs_erase_all e w3);
              w5 = snd (nvs_commit (tx_commit_ok e) w4)
          in Inr w5)"

subsection \<open>tx_task\<close>

definition tx_task :: "nat \<Rightarrow> env \<Rightarrow> world \<Rightarrow> fault + world" where
  "tx_task hz e w =
     (let data = malloc RX_BUF_SIZE (heap e);
          data_size = RX_BUF_SIZE;
          (err, data1, data_size1, w1) = nvs_get_str ''uart'' data data_size w
      in case sendData hz e TX_TASK_TAG data1 w1 of
           Inl f \<Rightarrow> Inl f
         | Inr w2 \<Rightarrow>
             if portTICK_PERIOD_MS hz = 0 then Inl DivideByZero
             else Inr (vTaskDelay (2000 div portTICK_PERIOD_MS hz) w2))"

subsection \<open>rx_task\<close>

text \<open>
  One iteration of the \<^verbatim>\<open>while (1)\<close> loop, on the buffer \<open>data\<close> of \<open>RX_BUF_SIZE + 1\<close> bytes
  that \<^verbatim>\<open>rx_task\<close> allocates once before the loop.
\<close>

definition rx_task_iteration ::
  "nat \<Rightarrow> env \<Rightarrow> byte list \<times> world \<Rightarrow> fault + byte list \<times> world" where
  "rx_task_iteration hz e dw =
     (let (data, w) = dw;
          w0 = ESP_LOGI RX_TASK_TAG Waiting w
      in if portTICK_PERIOD_MS hz = 0 then Inl DivideByZero
         else
           let start_time = xTaskGetTickCount w0;
               (got, w1) = uart_read_bytes e RX_BUF_SIZE (1000 div portTICK_PERIOD_MS hz) w0;
               data1 = store_at0 got data;
               rxBytes = int (length got);
               end_time = xTaskGetTickCount w1
           in if rxBytes > 0 then
                if length data1 \<le> nat rxBytes then Inl BufferOverrun
                else
                let data2 = data1[nat rxBytes := 0] in
                case c_strlen data2 of
                  None \<Rightarrow> Inl StrlenOverrun
                | Some n \<Rightarrow>
                    let w2 = snd (nvs_set_str e ''uart'' (take n data2) w1);
                        w3 = snd (nvs_commit (rx_commit_ok e) w2);
                        w4 = ESP_LOGI RX_TASK_TAG (ReadBytes rxBytes (take n data2)) w3;
                        time_taken = unat (end_time - start_time);
                        speed = float_mul (float_div rxBytes time_taken) hz;
                        w5 = ESP_LOGI RX_TASK_TAG (ReceptionSpeed speed) w4
                    in case tx_task hz e w5 of
                         Inl f \<Rightarrow> Inl f
                       | Inr w6 \<Rightarrow> Inr (data2, vTaskDelay (3000 div portTICK_PERIOD_MS hz) w6)
              else Inr (data1, vTaskDelay (3000 div portTICK_PERIOD_MS hz) w1))"

text \<open>
  The loop never ends in C; here it runs once per element of a list of environments and
  stops at the first fault.
\<close>

fun rx_task_loop :: "nat \<Rightarrow> env list \<Rightarrow> byte list \<times> world \<Rightarrow> fault + byte list \<times> world" where
  "rx_task_loop hz [] dw = Inr dw"
| "rx_task_loop hz (e # es) dw =
     (case rx_task_iteration hz e dw of
        Inl f \<Rightarrow> Inl f
      | Inr dw1 \<Rightarrow> rx_task_loop hz es dw1)"

definition rx_task ::
  "nat \<Rightarrow> (nat \<Rightarrow> byte) \<Rightarrow> env list \<Rightarrow> world \<Rightarrow> fault + byte list \<times> world" where
  "rx_task hz h es w = rx_task_loop hz es (malloc (RX_BUF_SIZE + 1) h, w)"

subsection \<open>Reading a result\<close>

fun events_of :: "fault + world \<Rightarrow> event list" where
  "events_of (Inl f) = []"
| "events_of (Inr w) = trace w"

fun iteration_events :: "fault + byte list \<times> world \<Rightarrow> event list" where
  "iteration_events (Inl f) = []"
| "iteration_events (Inr dw) = trace (snd dw)"


text \<open>The bytes that went out: of each write, as many as the driver accepted.\<close>

fun transmitted :: "event list \<Rightarrow> byte list" where
  "transmitted [] = []"
| "transmitted (UartWrite src n # evs) = take (nat n) src @ transmitted evs"
| "transmitted (ev # evs) = transmitted evs"

text \<open>The receive call an iteration makes when it starts in \<open>w\<close>, and the replay buffer
  as \<^verbatim>\<open>tx_task\<close> passes it to \<^verbatim>\<open>sendData\<close>.\<close>

definition iteration_receive :: "nat \<Rightarrow> env \<Rightarrow> world \<Rightarrow> byte list" where
  "iteration_receive hz e w =
     fst (uart_read_bytes e RX_BUF_SIZE (1000 div portTICK_PERIOD_MS hz)
            (ESP_LOGI RX_TASK_TAG Waiting w))"

definition replay_buffer :: "env \<Rightarrow> world \<Rightarrow> byte list" where
  "replay_buffer e w =
     fst (snd (nvs_get_str ''uart'' (malloc RX_BUF_SIZE (heap e)) RX_BUF_SIZE w))"

definition replay_status :: "env \<Rightarrow> world \<Rightarrow> esp_err_t" where
  "replay_status e w =
     fst (nvs_get_str ''uart'' (malloc RX_BUF_SIZE (heap e)) RX_BUF_SIZE w)"

fun uart_writes :: "event list \<Rightarrow> (byte list \<times> int) list" where
  "uart_writes [] = []"
| "uart_writes (UartWrite src n # evs) = (src, n) # uart_writes evs"
| "uart_writes (ev # evs) = uart_writes evs"

fun delays :: "event list \<Rightarrow> nat list" where
  "delays [] = []"
| "delays (Delay n # evs) = n # delays evs"
| "delays (ev # evs) = delays evs"

subsection \<open>Inputs of the examples\<close>

definition world0 :: world where
  "world0 = \<lparr>uart_rx = [], nvs_live = Map.empty, nvs_flash = Map.empty, ticks = 0, trace = []\<rparr>"

definition zero_heap :: "nat \<Rightarrow> byte" where
  "zero_heap i = 0"

definition stale_heap :: "nat \<Rightarrow> byte" where
  "stale_heap i = (if i < 2 then 65 else 0)"

definition env0 :: env where
  "env0 = \<lparr>arriving = [], rx_ticks = 100, nvs_set_ok = True, rx_commit_ok = True,
            heap = zero_heap, tx_result = TxAll, tx_ticks = 5, erase_ok = True,
            tx_commit_ok = True\<rparr>"

definition hello :: "byte list" where
  "hello = [104, 101, 108, 108, 111, 32, 119, 111, 114, 108, 100, 33, 0]"


section \<open>Lemmas\<close>

lemma c_strlen_takeWhile:
  "c_strlen buf = Some n \<Longrightarrow> take n buf = takeWhile (\<lambda>b. b \<noteq> 0) buf \<and> n = length (takeWhile (\<lambda>b. b \<noteq> 0) buf)"
  by (induction buf arbitrary: n) (auto split: if_splits)

lemma c_strlen_None_iff: "c_strlen buf = None \<longleftrightarrow> 0 \<notin> set buf"
  by (induction buf) auto

lemma c_strlen_append_nul:
  "c_strlen (s @ 0 # r) = Some (length (takeWhile (\<lambda>b. b \<noteq> 0) s))"
  by (induction s) auto

lemma takeWhile_append_nul:
  "takeWhile (\<lambda>b. b \<noteq> 0) (s @ (0::byte) # r) = takeWhile (\<lambda>b. b \<noteq> 0) s"
  by (induction s) auto

lemma terminate_received:
  "length got < length data \<Longrightarrow>
   (store_at0 got data)[length got := 0] = got @ 0 # drop (Suc (length got)) data"
  by (simp add: store_at0_def list_update_append Cons_nth_drop_Suc [symmetric] upd_conv_take_nth_drop)

lemma sendData_Inr:
  assumes "c_strlen data = Some len"
  shows "\<exists>w'. sendData hz e tag data w = Inr w' \<and>
     trace w' = trace w @
       [UartWrite (take len data) (int (tx_accepted (tx_result e) len)),
        LogI tag (Wrote (int (tx_accepted (tx_result e) len))),
        LogI tag (TransmissionSpeed
          (float_mul (float_div (int (tx_accepted (tx_result e) len)) (unat (tx_ticks e))) hz)),
        NvsEraseAll (if erase_ok e then ESP_OK else ESP_FAIL),
        NvsCommit (if tx_commit_ok e then ESP_OK else ESP_FAIL)] \<and>
     nvs_live w' = (if erase_ok e then Map.empty else nvs_live w) \<and>
     nvs_flash w' = (if tx_commit_ok e then (if erase_ok e then Map.empty else nvs_live w) else nvs_flash w) \<and>
     uart_rx w' = uart_rx w \<and>
     ticks w' = ticks w + tx_ticks e"
  using assms
  by (simp add: sendData_def uart_write_bytes_def ESP_LOGI_def xTaskGetTickCount_def
      nvs_erase_all_def nvs_commit_def Let_def)

lemma nvs_get_str_trace:
  "snd (snd (snd (nvs_get_str key buf len w))) =
     w\<lparr>trace := trace w @ [NvsGetStr key (fst (nvs_get_str key buf len w))]\<rparr>"
  by (simp add: nvs_get_str_def split: option.splits)

lemma tx_task_Inr:
  assumes "c_strlen (replay_buffer e w) = Some n" and "0 < portTICK_PERIOD_MS hz"
  shows "\<exists>w'. tx_task hz e w = Inr w' \<and>
     trace w' = trace w @
       [NvsGetStr ''uart'' (replay_status e w),
        UartWrite (take n (replay_buffer e w)) (int (tx_accepted (tx_result e) n)),
        LogI TX_TASK_TAG (Wrote (int (tx_accepted (tx_result e) n))),
        LogI TX_TASK_TAG (TransmissionSpeed
          (float_mul (float_div (int (tx_accepted (tx_result e) n)) (unat (tx_ticks e))) hz)),
        NvsEraseAll (if erase_ok e then ESP_OK else ESP_FAIL),
        NvsCommit (if tx_commit_ok e then ESP_OK else ESP_FAIL),
        Delay (2000 div portTICK_PERIOD_MS hz)] \<and>
     nvs_live w' = (if erase_ok e then Map.empty else nvs_live w) \<and>
     nvs_flash w' = (if tx_commit_ok e then (if erase_ok e then Map.empty else nvs_live w) else nvs_flash w) \<and>
     uart_rx w' = uart_rx w"
proof -
  obtain err buf sz w1 where g: "nvs_get_str ''uart'' (malloc RX_BUF_SIZE (heap e)) RX_BUF_SIZE w = (err, buf, sz, w1)"
    by (metis prod_cases4)
  have buf: "buf = replay_buffer e w" and err: "err = replay_status e w"
    using g by (simp_all add: replay_buffer_def replay_status_def)
  have w1: "w1 = w\<lparr>trace := trace w @ [NvsGetStr ''uart'' err]\<rparr>"
    using nvs_get_str_trace [of "''uart''" "malloc RX_BUF_SIZE (heap e)" RX_BUF_SIZE w] g by simp
  from assms(1) buf have "c_strlen buf = Some n" by simp
  from sendData_Inr [OF this, of hz e TX_TASK_TAG w1]
  obtain w2 where s: "sendData hz e TX_TASK_TAG buf w1 = Inr w2"
    and t: "trace w2 = trace w1 @
       [UartWrite (take n buf) (int (tx_accepted (tx_result e) n)),
        LogI TX_TASK_TAG (Wrote (int (tx_accepted (tx_result e) n))),
        LogI TX_TASK_TAG (TransmissionSpeed
          (float_mul (float_div (int (tx_accepted (tx_result e) n)) (unat (tx_ticks e))) hz)),
        NvsEraseAll (if erase_ok e then ESP_OK else ESP_FAIL),
        NvsCommit (if tx_commit_ok e then ESP_OK else ESP_FAIL)]"
    and l: "nvs_live w2 = (if erase_ok e then Map.empty else nvs_live w1)"
    and f: "nvs_flash w2 = (if tx_commit_ok e then (if erase_ok e then Map.empty else nvs_live w1) else nvs_flash w1)"
    and u: "uart_rx w2 = uart_rx w1"
    by blast
  have "tx_task hz e w = Inr (vTaskDelay (2000 div portTICK_PERIOD_MS hz) w2)"
    using g s assms(2) by (simp add: tx_task_def)
  then show ?thesis
    using t l f u w1 buf err by (simp add: vTaskDelay_def)
qed

lemma tx_task_fault:
  assumes "c_strlen (replay_buffer e w) = None"
  shows "tx_task hz e w = Inl StrlenOverrun"
proof -
  obtain err buf sz w1 where g: "nvs_get_str ''uart'' (malloc RX_BUF_SIZE (heap e)) RX_BUF_SIZE w = (err, buf, sz, w1)"
    by (metis prod_cases4)
  then have "buf = replay_buffer e w" by (simp add: replay_buffer_def)
  with assms g show ?thesis by (simp add: tx_task_def sendData_def)
qed

lemma replay_not_found:
  "nvs_live w ''uart'' = None \<Longrightarrow>
     replay_status e w = ESP_ERR_NVS_NOT_FOUND \<and> replay_buffer e w = malloc RX_BUF_SIZE (heap e)"
  by (simp add: replay_status_def replay_buffer_def nvs_get_str_def)

lemma replay_found:
  "nvs_live w ''uart'' = Some s \<Longrightarrow> length s < RX_BUF_SIZE \<Longrightarrow>
     replay_status e w = ESP_OK \<and>
     replay_buffer e w = s @ 0 # drop (Suc (length s)) (malloc RX_BUF_SIZE (heap e))"
  by (simp add: replay_status_def replay_buffer_def nvs_get_str_def store_at0_def)


lemma iteration_receive_eq:
  "iteration_receive hz e w = take RX_BUF_SIZE (take uart_rx_buffer_size (uart_rx w @ arriving e))"
  by (simp add: iteration_receive_def uart_read_bytes_def ESP_LOGI_def Let_def)

lemma uart_read_bytes_log:
  "uart_read_bytes e len t (ESP_LOGI tag m w) =
     (take len (take uart_rx_buffer_size (uart_rx w @ arriving e)),
      w\<lparr>uart_rx := drop len (take uart_rx_buffer_size (uart_rx w @ arriving e)),
        ticks := ticks w + rx_ticks e,
        trace := trace w @
          [LogI tag m, UartRead t (take len (take uart_rx_buffer_size (uart_rx w @ arriving e)))]\<rparr>)"
  by (simp add: uart_read_bytes_def ESP_LOGI_def Let_def)

lemma rx_task_iteration_idle:
  assumes "0 < portTICK_PERIOD_MS hz" and "iteration_receive hz e w = []"
  shows "rx_task_iteration hz e (data, w) =
     Inr (data, w\<lparr>uart_rx := drop RX_BUF_SIZE (take uart_rx_buffer_size (uart_rx w @ arriving e)),
                  ticks := ticks w + rx_ticks e + of_nat (3000 div portTICK_PERIOD_MS hz),
                  trace := trace w @
                    [LogI RX_TASK_TAG Waiting,
                     UartRead (1000 div portTICK_PERIOD_MS hz) [],
                     Delay (3000 div portTICK_PERIOD_MS hz)]\<rparr>)"
proof -
  let ?t = "1000 div portTICK_PERIOD_MS hz"
  define avail where "avail = take uart_rx_buffer_size (uart_rx w @ arriving e)"
  have got: "take RX_BUF_SIZE avail = []"
    using assms(2) by (simp add: iteration_receive_eq avail_def)
  define w1 where "w1 = w\<lparr>uart_rx := drop RX_BUF_SIZE avail, ticks := ticks w + rx_ticks e,
     trace := trace w @ [LogI RX_TASK_TAG Waiting, UartRead ?t []]\<rparr>"
  have "uart_read_bytes e RX_BUF_SIZE ?t (ESP_LOGI RX_TASK_TAG Waiting w) =
      (take RX_BUF_SIZE avail,
       w\<lparr>uart_rx := drop RX_BUF_SIZE avail, ticks := ticks w + rx_ticks e,
         trace := trace w @ [LogI RX_TASK_TAG Waiting, UartRead ?t (take RX_BUF_SIZE avail)]\<rparr>)"
    unfolding avail_def by (rule uart_read_bytes_log)
  then have r: "uart_read_bytes e RX_BUF_SIZE ?t (ESP_LOGI RX_TASK_TAG Waiting w) = ([], w1)"
    unfolding got w1_def .
  have "rx_task_iteration hz e (data, w) = Inr (data, vTaskDelay (3000 div portTICK_PERIOD_MS hz) w1)"
    unfolding rx_task_iteration_def
    using assms(1) by (simp add: r store_at0_def)
  then show ?thesis
    by (simp add: w1_def vTaskDelay_def avail_def)
qed

lemma rx_task_iteration_cycle:
  assumes "0 < portTICK_PERIOD_MS hz"
    and "iteration_receive hz e w = got" and "got \<noteq> []" and "length got < length data"
  shows "\<exists>w5. rx_task_iteration hz e (data, w) =
       (case tx_task hz e w5 of
          Inl f \<Rightarrow> Inl f
        | Inr w6 \<Rightarrow> Inr (got @ 0 # drop (Suc (length got)) data,
                         vTaskDelay (3000 div portTICK_PERIOD_MS hz) w6)) \<and>
     trace w5 = trace w @
       [LogI RX_TASK_TAG Waiting,
        UartRead (1000 div portTICK_PERIOD_MS hz) got,
        NvsSetStr ''uart'' (takeWhile (\<lambda>b. b \<noteq> 0) got) (if nvs_set_ok e then ESP_OK else ESP_FAIL),
        NvsCommit (if rx_commit_ok e then ESP_OK else ESP_FAIL),
        LogI RX_TASK_TAG (ReadBytes (int (length got)) (takeWhile (\<lambda>b. b \<noteq> 0) got)),
        LogI RX_TASK_TAG (ReceptionSpeed
          (float_mul (float_div (int (length got)) (unat (rx_ticks e))) hz))] \<and>
     nvs_live w5 = (if nvs_set_ok e then (nvs_live w)(''uart'' \<mapsto> takeWhile (\<lambda>b. b \<noteq> 0) got) else nvs_live w) \<and>
     nvs_flash w5 = (if rx_commit_ok e
        then (if nvs_set_ok e then (nvs_live w)(''uart'' \<mapsto> takeWhile (\<lambda>b. b \<noteq> 0) got) else nvs_live w)
        else nvs_flash w) \<and>
     uart_rx w5 = drop RX_BUF_SIZE (take uart_rx_buffer_size (uart_rx w @ arriving e))"
proof -
  let ?d2 = "got @ 0 # drop (Suc (length got)) data"
  let ?s = "takeWhile (\<lambda>b. b \<noteq> 0) got"
  let ?t = "1000 div portTICK_PERIOD_MS hz"
  define avail where "avail = take uart_rx_buffer_size (uart_rx w @ arriving e)"
  have got: "take RX_BUF_SIZE avail = got"
    using assms(2) by (simp add: iteration_receive_eq avail_def)
  define w1 where "w1 = w\<lparr>uart_rx := drop RX_BUF_SIZE avail, ticks := ticks w + rx_ticks e,
     trace := trace w @ [LogI RX_TASK_TAG Waiting, UartRead ?t got]\<rparr>"
  have "uart_read_bytes e RX_BUF_SIZE ?t (ESP_LOGI RX_TASK_TAG Waiting w) =
      (take RX_BUF_SIZE avail,
       w\<lparr>uart_rx := drop RX_BUF_SIZE avail, ticks := ticks w + rx_ticks e,
         trace := trace w @ [LogI RX_TASK_TAG Waiting, UartRead ?t (take RX_BUF_SIZE avail)]\<rparr>)"
    unfolding avail_def by (rule uart_read_bytes_log)
  then have r: "uart_read_bytes e RX_BUF_SIZE ?t (ESP_LOGI RX_TASK_TAG Waiting w) = (got, w1)"
    unfolding got w1_def .
  define w5 where "w5 =
     ESP_LOGI RX_TASK_TAG (ReceptionSpeed (float_mul (float_div (int (length got)) (unat (rx_ticks e))) hz))
       (ESP_LOGI RX_TASK_TAG (ReadBytes (int (length got)) ?s)
         (snd (nvs_commit (rx_commit_ok e) (snd (nvs_set_str e ''uart'' ?s w1)))))"
  have d2: "(store_at0 got data)[length got := 0] = ?d2"
    using assms(4) by (rule terminate_received)
  have len: "c_strlen ?d2 = Some (length ?s)"
    by (rule c_strlen_append_nul)
  have tk: "take (length ?s) ?d2 = ?s"
    using c_strlen_takeWhile [OF len] by (simp add: takeWhile_append_nul)
  have l1: "\<not> length (store_at0 got data) \<le> length got"
    using assms(4) by (simp add: store_at0_def)
  have el: "xTaskGetTickCount w1 - xTaskGetTickCount (ESP_LOGI RX_TASK_TAG Waiting w) = rx_ticks e"
    by (simp add: xTaskGetTickCount_def w1_def ESP_LOGI_def)
  have run: "rx_task_iteration hz e (data, w) =
       (case tx_task hz e w5 of
          Inl f \<Rightarrow> Inl f
        | Inr w6 \<Rightarrow> Inr (?d2, vTaskDelay (3000 div portTICK_PERIOD_MS hz) w6))"
    unfolding rx_task_iteration_def
    using assms(1,3) by (simp add: r d2 len l1 el tk w5_def Let_def del: take_append)
  have flds: "trace w5 = trace w @
       [LogI RX_TASK_TAG Waiting,
        UartRead ?t got,
        NvsSetStr ''uart'' ?s (if nvs_set_ok e then ESP_OK else ESP_FAIL),
        NvsCommit (if rx_commit_ok e then ESP_OK else ESP_FAIL),
        LogI RX_TASK_TAG (ReadBytes (int (length got)) ?s),
        LogI RX_TASK_TAG (ReceptionSpeed
          (float_mul (float_div (int (length got)) (unat (rx_ticks e))) hz))]"
    "nvs_live w5 = (if nvs_set_ok e then (nvs_live w)(''uart'' \<mapsto> ?s) else nvs_live w)"
    "nvs_flash w5 = (if rx_commit_ok e
        then (if nvs_set_ok e then (nvs_live w)(''uart'' \<mapsto> ?s) else nvs_live w)
        else nvs_flash w)"
    "uart_rx w5 = drop RX_BUF_SIZE avail"
    by (simp_all add: w5_def w1_def ESP_LOGI_def nvs_set_str_def nvs_commit_def)
  show ?thesis
    using run flds unfolding avail_def by blast
qed

lemma replay_cong:
  "nvs_live w ''uart'' = nvs_live v ''uart'' \<Longrightarrow>
     replay_buffer e w = replay_buffer e v \<and> replay_status e w = replay_status e v"
  by (simp add: replay_buffer_def replay_status_def nvs_get_str_def split: option.splits)

lemma rx_task_iteration_div0:
  "portTICK_PERIOD_MS hz = 0 \<Longrightarrow> rx_task_iteration hz e (data, w) = Inl DivideByZero"
  by (simp add: rx_task_iteration_def)

lemma rx_task_iteration_overrun:
  assumes "0 < portTICK_PERIOD_MS hz"
    and "iteration_receive hz e w \<noteq> []" and "length data \<le> length (iteration_receive hz e w)"
  shows "rx_task_iteration hz e (data, w) = Inl BufferOverrun"
proof -
  obtain got w1 where r: "uart_read_bytes e RX_BUF_SIZE (1000 div portTICK_PERIOD_MS hz)
      (ESP_LOGI RX_TASK_TAG Waiting w) = (got, w1)"
    by (cases "uart_read_bytes e RX_BUF_SIZE (1000 div portTICK_PERIOD_MS hz)
      (ESP_LOGI RX_TASK_TAG Waiting w)")
  then have g: "iteration_receive hz e w = got"
    by (simp add: iteration_receive_def)
  have "length (store_at0 got data) \<le> length got"
    using assms(3) g by (simp add: store_at0_def)
  then show ?thesis
    unfolding rx_task_iteration_def
    using assms(1,2) g r by (simp add: Let_def)
qed

text \<open>
  The replay reads the store as the persist step left it: the string received when
  \<^verbatim>\<open>nvs_set_str\<close> succeeded, the previous entry (or none) when it failed.
\<close>

lemma rx_task_iteration_fault:
  assumes "0 < portTICK_PERIOD_MS hz"
    and "iteration_receive hz e w = got" and "got \<noteq> []" and "length got < length data"
    and "stored = (if nvs_set_ok e then Some (takeWhile (\<lambda>b. b \<noteq> 0) got) else nvs_live w ''uart'')"
    and "c_strlen (replay_buffer e (w\<lparr>nvs_live := (nvs_live w)(''uart'' := stored)\<rparr>)) = None"
  shows "rx_task_iteration hz e (data, w) = Inl StrlenOverrun"
proof -
  from rx_task_iteration_cycle [OF assms(1-4)]
  obtain w5 where run: "rx_task_iteration hz e (data, w) =
       (case tx_task hz e w5 of
          Inl f \<Rightarrow> Inl f
        | Inr w6 \<Rightarrow> Inr (got @ 0 # drop (Suc (length got)) data,
                         vTaskDelay (3000 div portTICK_PERIOD_MS hz) w6))"
    and l: "nvs_live w5 = (if nvs_set_ok e then (nvs_live w)(''uart'' \<mapsto> takeWhile (\<lambda>b. b \<noteq> 0) got) else nvs_live w)"
    by blast
  have "nvs_live w5 ''uart'' = nvs_live (w\<lparr>nvs_live := (nvs_live w)(''uart'' := stored)\<rparr>) ''uart''"
    using l assms(5) by simp
  from replay_cong [OF this, of e] assms(6) have "c_strlen (replay_buffer e w5) = None"
    by simp
  from tx_task_fault [OF this] run show ?thesis by simp
qed

lemma rx_task_iteration_full:
  assumes "0 < portTICK_PERIOD_MS hz"
    and "iteration_receive hz e w = got" and "got \<noteq> []" and "length got < length data"
    and "stored = (if nvs_set_ok e then Some (takeWhile (\<lambda>b. b \<noteq> 0) got) else nvs_live w ''uart'')"
    and "buf = replay_buffer e (w\<lparr>nvs_live := (nvs_live w)(''uart'' := stored)\<rparr>)"
    and "st = replay_status e (w\<lparr>nvs_live := (nvs_live w)(''uart'' := stored)\<rparr>)"
    and "c_strlen buf = Some n"
  shows "\<exists>w'. rx_task_iteration hz e (data, w) = Inr (got @ 0 # drop (Suc (length got)) data, w') \<and>
     trace w' = trace w @
       [LogI RX_TASK_TAG Waiting,
        UartRead (1000 div portTICK_PERIOD_MS hz) got,
        NvsSetStr ''uart'' (takeWhile (\<lambda>b. b \<noteq> 0) got) (if nvs_set_ok e then ESP_OK else ESP_FAIL),
        NvsCommit (if rx_commit_ok e then ESP_OK else ESP_FAIL),
        LogI RX_TASK_TAG (ReadBytes (int (length got)) (takeWhile (\<lambda>b. b \<noteq> 0) got)),
        LogI RX_TASK_TAG (ReceptionSpeed
          (float_mul (float_div (int (length got)) (unat (rx_ticks e))) hz)),
        NvsGetStr ''uart'' st,
        UartWrite (take n buf) (int (tx_accepted (tx_result e) n)),
        LogI TX_TASK_TAG (Wrote (int (tx_accepted (tx_result e) n))),
        LogI TX_TASK_TAG (TransmissionSpeed
          (float_mul (float_div (int (tx_accepted (tx_result e) n)) (unat (tx_ticks e))) hz)),
        NvsEraseAll (if erase_ok e then ESP_OK else ESP_FAIL),
        NvsCommit (if tx_commit_ok e then ESP_OK else ESP_FAIL),
        Delay (2000 div portTICK_PERIOD_MS hz),
        Delay (3000 div portTICK_PERIOD_MS hz)] \<and>
     nvs_live w' = (if erase_ok e then Map.empty else (nvs_live w)(''uart'' := stored)) \<and>
     (erase_ok e \<and> tx_commit_ok e \<longrightarrow> nvs_flash w' = Map.empty) \<and>
     uart_rx w' = drop RX_BUF_SIZE (take uart_rx_buffer_size (uart_rx w @ arriving e))"
proof -
  let ?s = "takeWhile (\<lambda>b. b \<noteq> 0) got"
  from rx_task_iteration_cycle [OF assms(1-4)]
  obtain w5 where run: "rx_task_iteration hz e (data, w) =
       (case tx_task hz e w5 of
          Inl f \<Rightarrow> Inl f
        | Inr w6 \<Rightarrow> Inr (got @ 0 # drop (Suc (length got)) data,
                         vTaskDelay (3000 div portTICK_PERIOD_MS hz) w6))"
    and t5: "trace w5 = trace w @
       [LogI RX_TASK_TAG Waiting,
        UartRead (1000 div portTICK_PERIOD_MS hz) got,
        NvsSetStr ''uart'' ?s (if nvs_set_ok e then ESP_OK else ESP_FAIL),
        NvsCommit (if rx_commit_ok e then ESP_OK else ESP_FAIL),
        LogI RX_TASK_TAG (ReadBytes (int (length got)) ?s),
        LogI RX_TASK_TAG (ReceptionSpeed
          (float_mul (float_div (int (length got)) (unat (rx_ticks e))) hz))]"
    and l5: "nvs_live w5 = (if nvs_set_ok e then (nvs_live w)(''uart'' \<mapsto> ?s) else nvs_live w)"
    and u5: "uart_rx w5 = drop RX_BUF_SIZE (take uart_rx_buffer_size (uart_rx w @ arriving e))"
    by blast
  have l5': "nvs_live w5 = (nvs_live w)(''uart'' := stored)"
    using l5 assms(5) by auto
  then have "nvs_live w5 ''uart'' = nvs_live (w\<lparr>nvs_live := (nvs_live w)(''uart'' := stored)\<rparr>) ''uart''"
    by simp
  from replay_cong [OF this, of e] assms(6,7)
  have b: "replay_buffer e w5 = buf" and s: "replay_status e w5 = st"
    by simp_all
  from assms(8) b have "c_strlen (replay_buffer e w5) = Some n" by simp
  from tx_task_Inr [OF this assms(1), of ] obtain w6 where
    tx: "tx_task hz e w5 = Inr w6"
    and t6: "trace w6 = trace w5 @
       [NvsGetStr ''uart'' (replay_status e w5),
        UartWrite (take n (replay_buffer e w5)) (int (tx_accepted (tx_result e) n)),
        LogI TX_TASK_TAG (Wrote (int (tx_accepted (tx_result e) n))),
        LogI TX_TASK_TAG (TransmissionSpeed
          (float_mul (float_div (int (tx_accepted (tx_result e) n)) (unat (tx_ticks e))) hz)),
        NvsEraseAll (if erase_ok e then ESP_OK else ESP_FAIL),
        NvsCommit (if tx_commit_ok e then ESP_OK else ESP_FAIL),
        Delay (2000 div portTICK_PERIOD_MS hz)]"
    and l6: "nvs_live w6 = (if erase_ok e then Map.empty else nvs_live w5)"
    and f6: "nvs_flash w6 = (if tx_commit_ok e then (if erase_ok e then Map.empty else nvs_live w5) else nvs_flash w5)"
    and u6: "uart_rx w6 = uart_rx w5"
    by blast
  have "rx_task_iteration hz e (data, w) =
      Inr (got @ 0 # drop (Suc (length got)) data, vTaskDelay (3000 div portTICK_PERIOD_MS hz) w6)"
    using run tx by simp
  moreover have "trace (vTaskDelay (3000 div portTICK_PERIOD_MS hz) w6) =
      trace w6 @ [Delay (3000 div portTICK_PERIOD_MS hz)]"
    "nvs_live (vTaskDelay (3000 div portTICK_PERIOD_MS hz) w6) = nvs_live w6"
    "nvs_flash (vTaskDelay (3000 div portTICK_PERIOD_MS hz) w6) = nvs_flash w6"
    "uart_rx (vTaskDelay (3000 div portTICK_PERIOD_MS hz) w6) = uart_rx w6"
    by (simp_all add: vTaskDelay_def)
  ultimately show ?thesis
    using t5 t6 l6 f6 u6 u5 l5' b s by simp
qed

lemma length_malloc: "length (malloc n h) = n"
  by (simp add: malloc_def)

lemma c_strlen_malloc:
  assumes "k < n" and "h k = 0" and "\<And>i. i < k \<Longrightarrow> h i \<noteq> 0"
  shows "c_strlen (malloc n h) = Some k" and "take k (malloc n h) = map h [0..<k]"
proof -
  have "[0..<n] = [0..<k] @ k # [Suc k..<n]"
    using assms(1) by (metis upt_conv_Cons upt_add_eq_append le_add_diff_inverse less_imp_le zero_le)
  then have m: "malloc n h = map h [0..<k] @ 0 # map h [Suc k..<n]"
    using assms(2) by (simp add: malloc_def)
  have tw: "takeWhile (\<lambda>b. b \<noteq> 0) (map h [0..<k]) = map h [0..<k]"
    using assms(3) by (auto simp: takeWhile_eq_all_conv)
  have "c_strlen (malloc n h) = Some (length (takeWhile (\<lambda>b. b \<noteq> 0) (map h [0..<k])))"
    unfolding m by (rule c_strlen_append_nul)
  also have "\<dots> = Some k"
    unfolding tw by simp
  finally show "c_strlen (malloc n h) = Some k" .
  show "take k (malloc n h) = map h [0..<k]"
    using m by simp
qed

lemma rx_task_iteration_InrE:
  assumes "rx_task_iteration hz e (data, w) = Inr (d, w')"
    and "iteration_receive hz e w = got" and "got \<noteq> []"
  obtains st buf n where
    "0 < portTICK_PERIOD_MS hz" and "length got < length data"
    and "d = got @ 0 # drop (Suc (length got)) data"
    and "c_strlen buf = Some n"
    and "trace w' = trace w @
       [LogI RX_TASK_TAG Waiting,
        UartRead (1000 div portTICK_PERIOD_MS hz) got,
        NvsSetStr ''uart'' (takeWhile (\<lambda>b. b \<noteq> 0) got) (if nvs_set_ok e then ESP_OK else ESP_FAIL),
        NvsCommit (if rx_commit_ok e then ESP_OK else ESP_FAIL),
        LogI RX_TASK_TAG (ReadBytes (int (length got)) (takeWhile (\<lambda>b. b \<noteq> 0) got)),
        LogI RX_TASK_TAG (ReceptionSpeed
          (float_mul (float_div (int (length got)) (unat (rx_ticks e))) hz)),
        NvsGetStr ''uart'' st,
        UartWrite (take n buf) (int (tx_accepted (tx_result e) n)),
        LogI TX_TASK_TAG (Wrote (int (tx_accepted (tx_result e) n))),
        LogI TX_TASK_TAG (TransmissionSpeed
          (float_mul (float_div (int (tx_accepted (tx_result e) n)) (unat (tx_ticks e))) hz)),
        NvsEraseAll (if erase_ok e then ESP_OK else ESP_FAIL),
        NvsCommit (if tx_commit_ok e then ESP_OK else ESP_FAIL),
        Delay (2000 div portTICK_PERIOD_MS hz),
        Delay (3000 div portTICK_PERIOD_MS hz)]"
    and "erase_ok e \<Longrightarrow> nvs_live w' = Map.empty"
    and "erase_ok e \<Longrightarrow> tx_commit_ok e \<Longrightarrow> nvs_flash w' = Map.empty"
    and "uart_rx w' = drop RX_BUF_SIZE (take uart_rx_buffer_size (uart_rx w @ arriving e))"
proof -
  have p: "0 < portTICK_PERIOD_MS hz"
    using assms(1) rx_task_iteration_div0 [of hz e data w] by (cases "portTICK_PERIOD_MS hz = 0") auto
  have l: "length got < length data"
    using assms rx_task_iteration_overrun [OF p, of e w data] by (cases "length got < length data") auto
  define stored where "stored = (if nvs_set_ok e then Some (takeWhile (\<lambda>b. b \<noteq> 0) got) else nvs_live w ''uart'')"
  define buf where "buf = replay_buffer e (w\<lparr>nvs_live := (nvs_live w)(''uart'' := stored)\<rparr>)"
  define st where "st = replay_status e (w\<lparr>nvs_live := (nvs_live w)(''uart'' := stored)\<rparr>)"
  have "c_strlen buf \<noteq> None"
    using rx_task_iteration_fault [OF p assms(2,3) l stored_def] assms(1) unfolding buf_def by auto
  then obtain n where n: "c_strlen buf = Some n" by auto
  from rx_task_iteration_full [OF p assms(2,3) l stored_def buf_def st_def n] assms(1)
  show ?thesis
    by (intro that [of buf n st] p l n) auto
qed

text \<open>A reception with nothing pending, a payload shorter than the buffer and a store that
  takes the write: the whole iteration.\<close>

lemma nominal_cycle:
  assumes "P \<noteq> []" and "length P < RX_BUF_SIZE" and "uart_rx w = []" and "arriving e = P"
    and "nvs_set_ok e" and "length data = RX_BUF_SIZE + 1" and "0 < portTICK_PERIOD_MS hz"
    and "S = takeWhile (\<lambda>b. b \<noteq> 0) P"
  shows "\<exists>w'. rx_task_iteration hz e (data, w) = Inr (P @ 0 # drop (Suc (length P)) data, w') \<and>
     trace w' = trace w @
       [LogI RX_TASK_TAG Waiting,
        UartRead (1000 div portTICK_PERIOD_MS hz) P,
        NvsSetStr ''uart'' S ESP_OK,
        NvsCommit (if rx_commit_ok e then ESP_OK else ESP_FAIL),
        LogI RX_TASK_TAG (ReadBytes (int (length P)) S),
        LogI RX_TASK_TAG (ReceptionSpeed
          (float_mul (float_div (int (length P)) (unat (rx_ticks e))) hz)),
        NvsGetStr ''uart'' ESP_OK,
        UartWrite S (int (tx_accepted (tx_result e) (length S))),
        LogI TX_TASK_TAG (Wrote (int (tx_accepted (tx_result e) (length S)))),
        LogI TX_TASK_TAG (TransmissionSpeed
          (float_mul (float_div (int (tx_accepted (tx_result e) (length S))) (unat (tx_ticks e))) hz)),
        NvsEraseAll (if erase_ok e then ESP_OK else ESP_FAIL),
        NvsCommit (if tx_commit_ok e then ESP_OK else ESP_FAIL),
        Delay (2000 div portTICK_PERIOD_MS hz),
        Delay (3000 div portTICK_PERIOD_MS hz)]"
proof -
  let ?s = "takeWhile (\<lambda>b. b \<noteq> 0) P"
  let ?w = "w\<lparr>nvs_live := (nvs_live w)(''uart'' := Some ?s)\<rparr>"
  have got: "iteration_receive hz e w = P"
    using assms(2,3,4) by (simp add: iteration_receive_eq uart_rx_buffer_size_def)
  have ld: "length P < length data"
    using assms(2,6) by simp
  have st: "Some ?s = (if nvs_set_ok e then Some ?s else nvs_live w ''uart'')"
    using assms(5) by simp
  have "length ?s \<le> length P"
    by (rule length_takeWhile_le)
  then have ls: "length ?s < RX_BUF_SIZE"
    using assms(2) by simp
  have "nvs_live ?w ''uart'' = Some ?s" by simp
  from replay_found [OF this ls, of e]
  have rs: "replay_status e ?w = ESP_OK"
    and rb: "replay_buffer e ?w = ?s @ 0 # drop (Suc (length ?s)) (malloc RX_BUF_SIZE (heap e))"
    by blast+
  have idem: "takeWhile (\<lambda>b. b \<noteq> 0) ?s = ?s"
    by simp
  have len: "c_strlen (replay_buffer e ?w) = Some (length ?s)"
    unfolding rb using c_strlen_append_nul [of ?s] by (simp only: idem)
  have tk: "take (length ?s) (replay_buffer e ?w) = ?s"
    unfolding rb by simp
  from rx_task_iteration_full [OF assms(7) got assms(1) ld st refl refl len]
  obtain w' where "rx_task_iteration hz e (data, w) = Inr (P @ 0 # drop (Suc (length P)) data, w')"
    and "trace w' = trace w @
       [LogI RX_TASK_TAG Waiting,
        UartRead (1000 div portTICK_PERIOD_MS hz) P,
        NvsSetStr ''uart'' ?s (if nvs_set_ok e then ESP_OK else ESP_FAIL),
        NvsCommit (if rx_commit_ok e then ESP_OK else ESP_FAIL),
        LogI RX_TASK_TAG (ReadBytes (int (length P)) ?s),
        LogI RX_TASK_TAG (ReceptionSpeed
          (float_mul (float_div (int (length P)) (unat (rx_ticks e))) hz)),
        NvsGetStr ''uart'' (replay_status e ?w),
        UartWrite (take (length ?s) (replay_buffer e ?w)) (int (tx_accepted (tx_result e) (length ?s))),
        LogI TX_TASK_TAG (Wrote (int (tx_accepted (tx_result e) (length ?s)))),
        LogI TX_TASK_TAG (TransmissionSpeed
          (float_mul (float_div (int (tx_accepted (tx_result e) (length ?s))) (unat (tx_ticks e))) hz)),
        NvsEraseAll (if erase_ok e then ESP_OK else ESP_FAIL),
        NvsCommit (if tx_commit_ok e then ESP_OK else ESP_FAIL),
        Delay (2000 div portTICK_PERIOD_MS hz),
        Delay (3000 div portTICK_PERIOD_MS hz)]"
    by blast
  then show ?thesis
    unfolding assms(8) rs tk using assms(5) by simp
qed

lemma float_speed_zero:
  "0 < hz \<Longrightarrow> float_mul (float_div (int n) 0) hz = (if n = 0 then NaN else PosInf)"
  by (simp add: float_mul_def float_div_def)

lemma float_speed_nonzero:
  "0 < t \<Longrightarrow> float_mul (float_div (int n) t) hz = Finite (of_nat n / of_nat t * of_nat hz)"
  by (simp add: float_mul_def float_div_def)

lemma hz_pos: "0 < portTICK_PERIOD_MS hz \<Longrightarrow> 0 < hz"
  by (cases "hz = 0") (simp_all add: portTICK_PERIOD_MS_def)


section \<open>The claims\<close>

subsection \<open>C1\<close>

text \<open>
  Claim C1. A payload \<open>P\<close> with \<open>0 < length P < RX_BUF_SIZE\<close> arrives while nothing else is
  pending in the driver, the store accepts the write and the driver accepts every byte
  submitted. Then the iteration completes and makes exactly one UART write; the bytes that
  go out are \<open>P\<close> up to, and without, its first null byte, and hence \<open>P\<close> itself when \<open>P\<close>
  holds no null byte.
\<close>

theorem cycle_transmits_payload_up_to_first_null:
  assumes "P \<noteq> []" and "length P < RX_BUF_SIZE" and "uart_rx w = []" and "arriving e = P"
    and "nvs_set_ok e" and "tx_result e = TxAll"
    and "length data = RX_BUF_SIZE + 1" and "0 < portTICK_PERIOD_MS hz"
  shows "\<exists>d w'. rx_task_iteration hz e (data, w) = Inr (d, w') \<and>
     uart_writes (drop (length (trace w)) (trace w')) =
       [(takeWhile (\<lambda>b. b \<noteq> 0) P, int (length (takeWhile (\<lambda>b. b \<noteq> 0) P)))] \<and>
     transmitted (drop (length (trace w)) (trace w')) = takeWhile (\<lambda>b. b \<noteq> 0) P \<and>
     (0 \<notin> set P \<longrightarrow> transmitted (drop (length (trace w)) (trace w')) = P)"
proof -
  have "0 \<notin> set P \<Longrightarrow> takeWhile (\<lambda>b. b \<noteq> 0) P = P"
    by (auto simp: takeWhile_eq_all_conv)
  with nominal_cycle [OF assms(1-5,7,8) refl] assms(6) show ?thesis
    by (auto simp: RX_TASK_TAG_def TX_TASK_TAG_def)
qed

text \<open>
  C1 at the 13 bytes \<^verbatim>\<open>"hello world!\\0"\<close>: the 12 bytes before the terminator go out.
\<close>

theorem cycle_transmits_payload_up_to_first_null_witness:
  "hello \<noteq> [] \<and> length hello < RX_BUF_SIZE \<and>
   (\<exists>d w'. rx_task_iteration 100 (env0\<lparr>arriving := hello\<rparr>)
        (malloc (RX_BUF_SIZE + 1) zero_heap, world0) = Inr (d, w') \<and>
      transmitted (trace w') = [104, 101, 108, 108, 111, 32, 119, 111, 114, 108, 100, 33])"
  using cycle_transmits_payload_up_to_first_null
    [where P = hello and w = world0 and e = "env0\<lparr>arriving := hello\<rparr>"
       and data = "malloc (RX_BUF_SIZE + 1) zero_heap" and hz = 100]
  by (auto simp: hello_def world0_def env0_def length_malloc RX_BUF_SIZE_def portTICK_PERIOD_MS_def)

subsection \<open>C2\<close>

text \<open>
  Claim C2 says that a read reporting \<^verbatim>\<open>ESP_ERR_NVS_NOT_FOUND\<close> is followed by no
  transmission. It is not so: \<^verbatim>\<open>tx_task\<close> does not look at the status. On an empty store, with
  a fresh block that starts with the bytes 65, 65, 0, the read reports not-found and the
  two bytes 65, 65 of the block are written to the UART.
\<close>

theorem not_found_still_transmits_counterexample:
  "replay_status (env0\<lparr>heap := stale_heap\<rparr>) world0 = ESP_ERR_NVS_NOT_FOUND \<and>
   events_of (tx_task 100 (env0\<lparr>heap := stale_heap\<rparr>) world0) =
     [NvsGetStr ''uart'' ESP_ERR_NVS_NOT_FOUND,
      UartWrite [65, 65] 2,
      LogI ''TX_TASK'' (Wrote 2),
      LogI ''TX_TASK'' (TransmissionSpeed (Finite 40)),
      NvsEraseAll ESP_OK,
      NvsCommit ESP_OK,
      Delay 200]"
proof -
  let ?e = "env0\<lparr>heap := stale_heap\<rparr>"
  have nf: "nvs_live world0 ''uart'' = None"
    by (simp add: world0_def)
  have b: "replay_buffer ?e world0 = malloc RX_BUF_SIZE stale_heap"
    and s: "replay_status ?e world0 = ESP_ERR_NVS_NOT_FOUND"
    using replay_not_found [OF nf, of ?e] by simp_all
  have l: "c_strlen (replay_buffer ?e world0) = Some 2"
    and t: "take 2 (replay_buffer ?e world0) = map stale_heap [0..<2]"
    unfolding b by (rule c_strlen_malloc; simp add: RX_BUF_SIZE_def stale_heap_def)+
  have u: "[0..<2] = [0, Suc 0]"
    by (simp add: upt_rec)
  have p: "0 < portTICK_PERIOD_MS 100"
    by (simp add: portTICK_PERIOD_MS_def)
  from tx_task_Inr [OF l p] s t show ?thesis
    by (auto simp: world0_def env0_def u stale_heap_def TX_TASK_TAG_def portTICK_PERIOD_MS_def
        float_mul_def float_div_def)
qed

text \<open>
  Claim C2, as the code has it. When the read reports \<^verbatim>\<open>ESP_ERR_NVS_NOT_FOUND\<close> the buffer is
  left as \<^verbatim>\<open>malloc\<close> returned it, and \<^verbatim>\<open>tx_task\<close> still calls \<^verbatim>\<open>sendData\<close> on it: the bytes
  before the first null byte of the block are submitted to the UART, the store is erased
  and committed, and the 2000 ms delay follows.
\<close>

theorem not_found_replays_untouched_buffer:
  assumes "nvs_live w ''uart'' = None" and "0 < portTICK_PERIOD_MS hz"
    and "c_strlen (malloc RX_BUF_SIZE (heap e)) = Some n"
  shows "\<exists>w'. tx_task hz e w = Inr w' \<and>
     trace w' = trace w @
       [NvsGetStr ''uart'' ESP_ERR_NVS_NOT_FOUND,
        UartWrite (take n (malloc RX_BUF_SIZE (heap e))) (int (tx_accepted (tx_result e) n)),
        LogI TX_TASK_TAG (Wrote (int (tx_accepted (tx_result e) n))),
        LogI TX_TASK_TAG (TransmissionSpeed
          (float_mul (float_div (int (tx_accepted (tx_result e) n)) (unat (tx_ticks e))) hz)),
        NvsEraseAll (if erase_ok e then ESP_OK else ESP_FAIL),
        NvsCommit (if tx_commit_ok e then ESP_OK else ESP_FAIL),
        Delay (2000 div portTICK_PERIOD_MS hz)]"
proof -
  from replay_not_found [OF assms(1), of e]
  have s: "replay_status e w = ESP_ERR_NVS_NOT_FOUND"
    and b: "replay_buffer e w = malloc RX_BUF_SIZE (heap e)"
    by simp_all
  from assms(3) b have "c_strlen (replay_buffer e w) = Some n" by simp
  from tx_task_Inr [OF this assms(2)] show ?thesis
    unfolding s b by blast
qed

text \<open>
  The amended C2 on an empty store and a block of zero bytes: a write of no bytes.
\<close>

theorem not_found_replays_untouched_buffer_witness:
  "nvs_live world0 ''uart'' = None \<and>
   c_strlen (malloc RX_BUF_SIZE zero_heap) = Some 0 \<and>
   (\<exists>w'. tx_task 100 env0 world0 = Inr w' \<and>
      trace w' =
       [NvsGetStr ''uart'' ESP_ERR_NVS_NOT_FOUND,
        UartWrite [] 0,
        LogI TX_TASK_TAG (Wrote 0),
        LogI TX_TASK_TAG (TransmissionSpeed (Finite 0)),
        NvsEraseAll ESP_OK,
        NvsCommit ESP_OK,
        Delay 200])"
proof -
  have nf: "nvs_live world0 ''uart'' = None"
    by (simp add: world0_def)
  have p: "0 < portTICK_PERIOD_MS 100"
    by (simp add: portTICK_PERIOD_MS_def)
  have l: "c_strlen (malloc RX_BUF_SIZE (heap env0)) = Some 0"
    by (rule c_strlen_malloc) (simp_all add: RX_BUF_SIZE_def env0_def zero_heap_def)
  from not_found_replays_untouched_buffer [OF nf p l] nf l show ?thesis
    by (auto simp: world0_def env0_def portTICK_PERIOD_MS_def float_mul_def float_div_def)
qed

subsection \<open>C3\<close>

text \<open>
  Claim C3 says that a sample with zero elapsed ticks is reported as immeasurable, never
  as an infinity or NaN. It is not so: neither computation tests the elapsed time. When
  both the read and the write take no tick, both speeds are logged as plus infinity.
\<close>

theorem zero_elapsed_speed_counterexample:
  "iteration_events (rx_task_iteration 100 (env0\<lparr>arriving := hello, rx_ticks := 0, tx_ticks := 0\<rparr>)
       (malloc (RX_BUF_SIZE + 1) zero_heap, world0)) =
     [LogI ''RX_TASK'' Waiting,
      UartRead 100 [104, 101, 108, 108, 111, 32, 119, 111, 114, 108, 100, 33, 0],
      NvsSetStr ''uart'' [104, 101, 108, 108, 111, 32, 119, 111, 114, 108, 100, 33] ESP_OK,
      NvsCommit ESP_OK,
      LogI ''RX_TASK'' (ReadBytes 13 [104, 101, 108, 108, 111, 32, 119, 111, 114, 108, 100, 33]),
      LogI ''RX_TASK'' (ReceptionSpeed PosInf),
      NvsGetStr ''uart'' ESP_OK,
      UartWrite [104, 101, 108, 108, 111, 32, 119, 111, 114, 108, 100, 33] 12,
      LogI ''TX_TASK'' (Wrote 12),
      LogI ''TX_TASK'' (TransmissionSpeed PosInf),
      NvsEraseAll ESP_OK,
      NvsCommit ESP_OK,
      Delay 200,
      Delay 300]"
  using nominal_cycle
    [where P = hello and w = world0
       and e = "env0\<lparr>arriving := hello, rx_ticks := 0, tx_ticks := 0\<rparr>"
       and data = "malloc (RX_BUF_SIZE + 1) zero_heap" and hz = 100, OF _ _ _ _ _ _ _ refl]
  by (auto simp: hello_def world0_def env0_def length_malloc RX_BUF_SIZE_def portTICK_PERIOD_MS_def
      RX_TASK_TAG_def TX_TASK_TAG_def float_mul_def float_div_def)

text \<open>
  Claim C3, as the code has it. The division is made whatever the elapsed tick count. The
  transmission speed logged by \<^verbatim>\<open>sendData\<close> is, when no tick elapsed, plus infinity if at
  least one byte was written and NaN if none was, and otherwise the finite quotient times
  the tick rate; the reception speed logged by an iteration that received something is
  plus infinity when no tick elapsed, and the finite value otherwise.
\<close>

theorem speed_division_is_unguarded:
  "(c_strlen data = Some len \<and> 0 < hz \<longrightarrow>
      (\<exists>w1. sendData hz e1 logName data w0 = Inr w1 \<and>
         LogI logName (TransmissionSpeed
           (if tx_ticks e1 = 0
            then (if tx_accepted (tx_result e1) len = 0 then NaN else PosInf)
            else Finite (of_nat (tx_accepted (tx_result e1) len) / of_nat (unat (tx_ticks e1)) * of_nat hz)))
           \<in> set (trace w1))) \<and>
   (rx_task_iteration hz e (buf, w) = Inr (d, w') \<and> iteration_receive hz e w = got \<and> got \<noteq> [] \<longrightarrow>
      LogI RX_TASK_TAG (ReceptionSpeed
        (if rx_ticks e = 0 then PosInf
         else Finite (of_nat (length got) / of_nat (unat (rx_ticks e)) * of_nat hz)))
        \<in> set (trace w'))"
proof (intro conjI impI)
  assume a: "c_strlen data = Some len \<and> 0 < hz"
  then have hz: "0 < hz" and l: "c_strlen data = Some len" by simp_all
  have sp: "float_mul (float_div (int (tx_accepted (tx_result e1) len)) (unat (tx_ticks e1))) hz =
      (if tx_ticks e1 = 0
       then (if tx_accepted (tx_result e1) len = 0 then NaN else PosInf)
       else Finite (of_nat (tx_accepted (tx_result e1) len) / of_nat (unat (tx_ticks e1)) * of_nat hz))"
    using float_speed_zero [OF hz] float_speed_nonzero [of "unat (tx_ticks e1)"]
    by (cases "tx_ticks e1 = 0") (simp_all add: unat_gt_0)
  from sendData_Inr [OF l, of hz e1 logName w0] show
    "\<exists>w1. sendData hz e1 logName data w0 = Inr w1 \<and>
      LogI logName (TransmissionSpeed
        (if tx_ticks e1 = 0
         then (if tx_accepted (tx_result e1) len = 0 then NaN else PosInf)
         else Finite (of_nat (tx_accepted (tx_result e1) len) / of_nat (unat (tx_ticks e1)) * of_nat hz)))
        \<in> set (trace w1)"
    unfolding sp by auto
next
  assume a: "rx_task_iteration hz e (buf, w) = Inr (d, w') \<and> iteration_receive hz e w = got \<and> got \<noteq> []"
  then have r: "rx_task_iteration hz e (buf, w) = Inr (d, w')"
    and g: "iteration_receive hz e w = got" and ne: "got \<noteq> []"
    by simp_all
  from r g ne have "0 < portTICK_PERIOD_MS hz \<and>
     LogI RX_TASK_TAG (ReceptionSpeed
       (float_mul (float_div (int (length got)) (unat (rx_ticks e))) hz)) \<in> set (trace w')"
    by (rule rx_task_iteration_InrE) simp
  then have hz: "0 < hz"
    and m: "LogI RX_TASK_TAG (ReceptionSpeed
       (float_mul (float_div (int (length got)) (unat (rx_ticks e))) hz)) \<in> set (trace w')"
    by (simp_all add: hz_pos)
  have "float_mul (float_div (int (length got)) (unat (rx_ticks e))) hz =
      (if rx_ticks e = 0 then PosInf
       else Finite (of_nat (length got) / of_nat (unat (rx_ticks e)) * of_nat hz))"
    using float_speed_zero [OF hz, of "length got"] float_speed_nonzero [of "unat (rx_ticks e)"] ne
    by (cases "rx_ticks e = 0") (simp_all add: unat_gt_0)
  with m show "LogI RX_TASK_TAG (ReceptionSpeed
        (if rx_ticks e = 0 then PosInf
         else Finite (of_nat (length got) / of_nat (unat (rx_ticks e)) * of_nat hz)))
        \<in> set (trace w')"
    by simp
qed

text \<open>
  The amended C3 with zero elapsed ticks: a write of 0 bytes logs NaN, a reception of 13
  bytes logs plus infinity.
\<close>

theorem speed_division_is_unguarded_witness:
  "(\<exists>w1. sendData 100 (env0\<lparr>tx_result := TxShort 0, tx_ticks := 0\<rparr>) TX_TASK_TAG hello world0 = Inr w1 \<and>
      LogI TX_TASK_TAG (TransmissionSpeed NaN) \<in> set (trace w1)) \<and>
   (\<exists>d w'. rx_task_iteration 100 (env0\<lparr>arriving := hello, rx_ticks := 0\<rparr>)
        (malloc (RX_BUF_SIZE + 1) zero_heap, world0) = Inr (d, w') \<and>
      LogI RX_TASK_TAG (ReceptionSpeed PosInf) \<in> set (trace w'))"
proof -
  let ?e = "env0\<lparr>arriving := hello, rx_ticks := 0\<rparr>"
  let ?b = "malloc (RX_BUF_SIZE + 1) zero_heap"
  have l: "c_strlen hello = Some 12"
    by (simp add: hello_def)
  have g: "iteration_receive 100 ?e world0 = hello"
    by (simp add: iteration_receive_eq env0_def world0_def hello_def RX_BUF_SIZE_def
        uart_rx_buffer_size_def)
  have ne: "hello \<noteq> []"
    by (simp add: hello_def)
  from nominal_cycle [where P = hello and w = world0 and e = ?e and data = ?b and hz = 100,
      OF _ _ _ _ _ _ _ refl]
  obtain d w' where r: "rx_task_iteration 100 ?e (?b, world0) = Inr (d, w')"
    by (auto simp: hello_def world0_def env0_def length_malloc RX_BUF_SIZE_def portTICK_PERIOD_MS_def)
  from speed_division_is_unguarded
    [where data = hello and len = 12 and hz = 100
       and ?e1.0 = "env0\<lparr>tx_result := TxShort 0, tx_ticks := 0\<rparr>"
       and logName = TX_TASK_TAG and ?w0.0 = world0
       and e = ?e and buf = ?b and w = world0 and d = d and w' = w' and got = hello]
    l r g ne
  show ?thesis
    by (auto simp: env0_def)
qed

subsection \<open>C4\<close>




subsection \<open>C5\<close>



subsection \<open>C6\<close>

text \<open>
  Claim C6 says that a failed commit keeps the controller from the replay step. It is not
  so: the value of \<^verbatim>\<open>nvs_commit\<close> is discarded. With a commit that fails after the write of
  \<^verbatim>\<open>"hello world!"\<close>, the iteration goes on to read the key back and to transmit the 12
  bytes.
\<close>

theorem commit_failure_still_replays_counterexample:
  "iteration_events (rx_task_iteration 100 (env0\<lparr>arriving := hello, rx_commit_ok := False\<rparr>)
       (malloc (RX_BUF_SIZE + 1) zero_heap, world0)) =
     [LogI ''RX_TASK'' Waiting,
      UartRead 100 [104, 101, 108, 108, 111, 32, 119, 111, 114, 108, 100, 33, 0],
      NvsSetStr ''uart'' [104, 101, 108, 108, 111, 32, 119, 111, 114, 108, 100, 33] ESP_OK,
      NvsCommit ESP_FAIL,
      LogI ''RX_TASK'' (ReadBytes 13 [104, 101, 108, 108, 111, 32, 119, 111, 114, 108, 100, 33]),
      LogI ''RX_TASK'' (ReceptionSpeed (Finite 13)),
      NvsGetStr ''uart'' ESP_OK,
      UartWrite [104, 101, 108, 108, 111, 32, 119, 111, 114, 108, 100, 33] 12,
      LogI ''TX_TASK'' (Wrote 12),
      LogI ''TX_TASK'' (TransmissionSpeed (Finite 240)),
      NvsEraseAll ESP_OK,
      NvsCommit ESP_OK,
      Delay 200,
      Delay 300]"
  using nominal_cycle
    [where P = hello and w = world0 and e = "env0\<lparr>arriving := hello, rx_commit_ok := False\<rparr>"
       and data = "malloc (RX_BUF_SIZE + 1) zero_heap" and hz = 100, OF _ _ _ _ _ _ _ refl]
  by (auto simp: hello_def world0_def env0_def length_malloc RX_BUF_SIZE_def portTICK_PERIOD_MS_def
      RX_TASK_TAG_def TX_TASK_TAG_def float_mul_def float_div_def)

text \<open>
  Claim C6, as the code has it. A payload shorter than \<open>RX_BUF_SIZE\<close> arrives while nothing
  else is pending, and the store accepts the write. Then the iteration goes on to the
  replay whether the commit succeeded or failed, without a second commit: the trace is the
  same but for the status of the commit, and the replay reads back and submits the string
  just written, the payload up to its first null byte.
\<close>

theorem commit_status_is_ignored:
  assumes "P \<noteq> []" and "length P < RX_BUF_SIZE" and "uart_rx w = []" and "arriving e = P"
    and "nvs_set_ok e" and "length data = RX_BUF_SIZE + 1" and "0 < portTICK_PERIOD_MS hz"
    and "S = takeWhile (\<lambda>b. b \<noteq> 0) P"
  shows "\<exists>d w'. rx_task_iteration hz e (data, w) = Inr (d, w') \<and>
     trace w' = trace w @
       [LogI RX_TASK_TAG Waiting,
        UartRead (1000 div portTICK_PERIOD_MS hz) P,
        NvsSetStr ''uart'' S ESP_OK,
        NvsCommit (if rx_commit_ok e then ESP_OK else ESP_FAIL),
        LogI RX_TASK_TAG (ReadBytes (int (length P)) S),
        LogI RX_TASK_TAG (ReceptionSpeed
          (float_mul (float_div (int (length P)) (unat (rx_ticks e))) hz)),
        NvsGetStr ''uart'' ESP_OK,
        UartWrite S (int (tx_accepted (tx_result e) (length S))),
        LogI TX_TASK_TAG (Wrote (int (tx_accepted (tx_result e) (length S)))),
        LogI TX_TASK_TAG (TransmissionSpeed
          (float_mul (float_div (int (tx_accepted (tx_result e) (length S))) (unat (tx_ticks e))) hz)),
        NvsEraseAll (if erase_ok e then ESP_OK else ESP_FAIL),
        NvsCommit (if tx_commit_ok e then ESP_OK else ESP_FAIL),
        Delay (2000 div portTICK_PERIOD_MS hz),
        Delay (3000 div portTICK_PERIOD_MS hz)]"
  using nominal_cycle [OF assms] by blast

text \<open>
  The amended C6 with a failing commit and the payload 104, 105.
\<close>

theorem commit_status_is_ignored_witness:
  "\<not> rx_commit_ok (env0\<lparr>arriving := [104, 105], rx_commit_ok := False\<rparr>) \<and>
   (\<exists>d w'. rx_task_iteration 100 (env0\<lparr>arriving := [104, 105], rx_commit_ok := False\<rparr>)
        (malloc (RX_BUF_SIZE + 1) zero_heap, world0) = Inr (d, w') \<and>
      trace w' =
       [LogI RX_TASK_TAG Waiting,
        UartRead 100 [104, 105],
        NvsSetStr ''uart'' [104, 105] ESP_OK,
        NvsCommit ESP_FAIL,
        LogI RX_TASK_TAG (ReadBytes 2 [104, 105]),
        LogI RX_TASK_TAG (ReceptionSpeed (Finite 2)),
        NvsGetStr ''uart'' ESP_OK,
        UartWrite [104, 105] 2,
        LogI TX_TASK_TAG (Wrote 2),
        LogI TX_TASK_TAG (TransmissionSpeed (Finite 40)),
        NvsEraseAll ESP_OK,
        NvsCommit ESP_OK,
        Delay 200,
        Delay 300])"
  using commit_status_is_ignored
    [where P = "[104, 105]" and w = world0
       and e = "env0\<lparr>arriving := [104, 105], rx_commit_ok := False\<rparr>"
       and data = "malloc (RX_BUF_SIZE + 1) zero_heap" and hz = 100, OF _ _ _ _ _ _ _ refl]
  by (auto simp: world0_def env0_def length_malloc RX_BUF_SIZE_def portTICK_PERIOD_MS_def
      float_mul_def float_div_def)

subsection \<open>C7\<close>

text \<open>
  Claim C7. When the read returns no byte, the iteration logs that it waits, reads, and
  delays 3000 ms: it makes no store write, no commit and no UART write, the store is
  unchanged, and the loop goes on to its next iteration with the same buffer.
\<close>

theorem idle_iteration_touches_nothing:
  assumes "0 < portTICK_PERIOD_MS hz" and "iteration_receive hz e w = []"
  shows "\<exists>w'. rx_task_iteration hz e (data, w) = Inr (data, w') \<and>
     trace w' = trace w @
       [LogI RX_TASK_TAG Waiting,
        UartRead (1000 div portTICK_PERIOD_MS hz) [],
        Delay (3000 div portTICK_PERIOD_MS hz)] \<and>
     nvs_live w' = nvs_live w \<and> nvs_flash w' = nvs_flash w \<and>
     rx_task_loop hz (e # es) (data, w) = rx_task_loop hz es (data, w')"
  using rx_task_iteration_idle [OF assms, of data] by simp

text \<open>
  C7 on a silent line.
\<close>

theorem idle_iteration_touches_nothing_witness:
  "iteration_receive 100 env0 world0 = [] \<and>
   (\<exists>w'. rx_task_iteration 100 env0 (malloc (RX_BUF_SIZE + 1) zero_heap, world0) =
        Inr (malloc (RX_BUF_SIZE + 1) zero_heap, w') \<and>
      trace w' = [LogI RX_TASK_TAG Waiting, UartRead 100 [], Delay 300] \<and>
      nvs_live w' = Map.empty \<and> nvs_flash w' = Map.empty)"
proof -
  have r: "iteration_receive 100 env0 world0 = []"
    by (simp add: iteration_receive_eq env0_def world0_def)
  have p: "0 < portTICK_PERIOD_MS 100"
    by (simp add: portTICK_PERIOD_MS_def)
  from idle_iteration_touches_nothing [OF p r, of "malloc (RX_BUF_SIZE + 1) zero_heap" "[]"] r
  show ?thesis
    by (auto simp: world0_def portTICK_PERIOD_MS_def)
qed

subsection \<open>C8\<close>

text \<open>
  Claim C8. The driver accepts only \<open>k\<close> of the bytes submitted. In \<^verbatim>\<open>sendData\<close>, on any
  buffer of \<^verbatim>\<open>strlen\<close> \<open>len > k\<close>: one write, \<open>k\<close> logged as the count written, then the
  erase and the commit. In \<^verbatim>\<open>tx_task\<close>, on any store: the same after the read, then the delay,
  and no second write. In an iteration of \<^verbatim>\<open>rx_task\<close> that received a payload shorter than
  \<open>RX_BUF_SIZE\<close>: the whole trace holds one UART write, of the string stored, logged with
  the count \<open>k\<close>; the erase, the commit and the two delays follow, and the loop goes on to
  its next iteration, which starts with a read.
\<close>

theorem short_write_is_logged_and_not_retried:
  assumes "tx_result e = TxShort k"
  shows "(c_strlen buf = Some len \<and> k < len \<longrightarrow>
       (\<exists>w1. sendData hz e logName buf w0 = Inr w1 \<and>
          trace w1 = trace w0 @
            [UartWrite (take len buf) (int k),
             LogI logName (Wrote (int k)),
             LogI logName (TransmissionSpeed (float_mul (float_div (int k) (unat (tx_ticks e))) hz)),
             NvsEraseAll (if erase_ok e then ESP_OK else ESP_FAIL),
             NvsCommit (if tx_commit_ok e then ESP_OK else ESP_FAIL)])) \<and>
     (c_strlen (replay_buffer e v) = Some n \<and> k < n \<and> 0 < portTICK_PERIOD_MS hz \<longrightarrow>
       (\<exists>v1. tx_task hz e v = Inr v1 \<and>
          trace v1 = trace v @
            [NvsGetStr ''uart'' (replay_status e v),
             UartWrite (take n (replay_buffer e v)) (int k),
             LogI TX_TASK_TAG (Wrote (int k)),
             LogI TX_TASK_TAG (TransmissionSpeed
               (float_mul (float_div (int k) (unat (tx_ticks e))) hz)),
             NvsEraseAll (if erase_ok e then ESP_OK else ESP_FAIL),
             NvsCommit (if tx_commit_ok e then ESP_OK else ESP_FAIL),
             Delay (2000 div portTICK_PERIOD_MS hz)])) \<and>
     (P \<noteq> [] \<and> length P < RX_BUF_SIZE \<and> uart_rx w = [] \<and> arriving e = P \<and> nvs_set_ok e \<and>
      length data = RX_BUF_SIZE + 1 \<and> 0 < portTICK_PERIOD_MS hz \<and>
      S = takeWhile (\<lambda>b. b \<noteq> 0) P \<and> k < length S \<longrightarrow>
       (\<exists>d w'. rx_task_iteration hz e (data, w) = Inr (d, w') \<and>
          trace w' = trace w @
            [LogI RX_TASK_TAG Waiting,
             UartRead (1000 div portTICK_PERIOD_MS hz) P,
             NvsSetStr ''uart'' S ESP_OK,
             NvsCommit (if rx_commit_ok e then ESP_OK else ESP_FAIL),
             LogI RX_TASK_TAG (ReadBytes (int (length P)) S),
             LogI RX_TASK_TAG (ReceptionSpeed
               (float_mul (float_div (int (length P)) (unat (rx_ticks e))) hz)),
             NvsGetStr ''uart'' ESP_OK,
             UartWrite S (int k),
             LogI TX_TASK_TAG (Wrote (int k)),
             LogI TX_TASK_TAG (TransmissionSpeed
               (float_mul (float_div (int k) (unat (tx_ticks e))) hz)),
             NvsEraseAll (if erase_ok e then ESP_OK else ESP_FAIL),
             NvsCommit (if tx_commit_ok e then ESP_OK else ESP_FAIL),
             Delay (2000 div portTICK_PERIOD_MS hz),
             Delay (3000 div portTICK_PERIOD_MS hz)] \<and>
          uart_writes (drop (length (trace w)) (trace w')) = [(S, int k)] \<and>
          rx_task_loop hz (e # es) (data, w) = rx_task_loop hz es (d, w')))"
proof (intro conjI impI)
  assume a: "c_strlen buf = Some len \<and> k < len"
  then have l: "c_strlen buf = Some len" and k: "k < len" by simp_all
  from k assms have acc: "tx_accepted (tx_result e) len = k" by simp
  from sendData_Inr [OF l, of hz e logName w0]
  show "\<exists>w1. sendData hz e logName buf w0 = Inr w1 \<and>
          trace w1 = trace w0 @
            [UartWrite (take len buf) (int k),
             LogI logName (Wrote (int k)),
             LogI logName (TransmissionSpeed (float_mul (float_div (int k) (unat (tx_ticks e))) hz)),
             NvsEraseAll (if erase_ok e then ESP_OK else ESP_FAIL),
             NvsCommit (if tx_commit_ok e then ESP_OK else ESP_FAIL)]"
    unfolding acc by blast
next
  assume a: "c_strlen (replay_buffer e v) = Some n \<and> k < n \<and> 0 < portTICK_PERIOD_MS hz"
  then have l: "c_strlen (replay_buffer e v) = Some n" and k: "k < n"
    and p: "0 < portTICK_PERIOD_MS hz"
    by simp_all
  from k assms have acc: "tx_accepted (tx_result e) n = k" by simp
  from tx_task_Inr [OF l p]
  show "\<exists>v1. tx_task hz e v = Inr v1 \<and>
          trace v1 = trace v @
            [NvsGetStr ''uart'' (replay_status e v),
             UartWrite (take n (replay_buffer e v)) (int k),
             LogI TX_TASK_TAG (Wrote (int k)),
             LogI TX_TASK_TAG (TransmissionSpeed
               (float_mul (float_div (int k) (unat (tx_ticks e))) hz)),
             NvsEraseAll (if erase_ok e then ESP_OK else ESP_FAIL),
             NvsCommit (if tx_commit_ok e then ESP_OK else ESP_FAIL),
             Delay (2000 div portTICK_PERIOD_MS hz)]"
    unfolding acc by blast
next
  assume a: "P \<noteq> [] \<and> length P < RX_BUF_SIZE \<and> uart_rx w = [] \<and> arriving e = P \<and> nvs_set_ok e \<and>
      length data = RX_BUF_SIZE + 1 \<and> 0 < portTICK_PERIOD_MS hz \<and>
      S = takeWhile (\<lambda>b. b \<noteq> 0) P \<and> k < length S"
  then have h: "P \<noteq> []" "length P < RX_BUF_SIZE" "uart_rx w = []" "arriving e = P" "nvs_set_ok e"
      "length data = RX_BUF_SIZE + 1" "0 < portTICK_PERIOD_MS hz" "S = takeWhile (\<lambda>b. b \<noteq> 0) P"
    and k: "k < length S"
    by blast+
  from k assms have acc: "tx_accepted (tx_result e) (length S) = k" by simp
  from nominal_cycle [OF h] obtain w' where
    r: "rx_task_iteration hz e (data, w) = Inr (P @ 0 # drop (Suc (length P)) data, w')"
    and t: "trace w' = trace w @
            [LogI RX_TASK_TAG Waiting,
             UartRead (1000 div portTICK_PERIOD_MS hz) P,
             NvsSetStr ''uart'' S ESP_OK,
             NvsCommit (if rx_commit_ok e then ESP_OK else ESP_FAIL),
             LogI RX_TASK_TAG (ReadBytes (int (length P)) S),
             LogI RX_TASK_TAG (ReceptionSpeed
               (float_mul (float_div (int (length P)) (unat (rx_ticks e))) hz)),
             NvsGetStr ''uart'' ESP_OK,
             UartWrite S (int k),
             LogI TX_TASK_TAG (Wrote (int k)),
             LogI TX_TASK_TAG (TransmissionSpeed
               (float_mul (float_div (int k) (unat (tx_ticks e))) hz)),
             NvsEraseAll (if erase_ok e then ESP_OK else ESP_FAIL),
             NvsCommit (if tx_commit_ok e then ESP_OK else ESP_FAIL),
             Delay (2000 div portTICK_PERIOD_MS hz),
             Delay (3000 div portTICK_PERIOD_MS hz)]"
    unfolding acc by blast
  have u: "uart_writes (drop (length (trace w)) (trace w')) = [(S, int k)]"
    unfolding t by (simp add: RX_TASK_TAG_def TX_TASK_TAG_def)
  have lp: "rx_task_loop hz (e # es) (data, w) =
      rx_task_loop hz es (P @ 0 # drop (Suc (length P)) data, w')"
    by (simp add: r)
  from r t u lp
  show "\<exists>d w'. rx_task_iteration hz e (data, w) = Inr (d, w') \<and>
          trace w' = trace w @
            [LogI RX_TASK_TAG Waiting,
             UartRead (1000 div portTICK_PERIOD_MS hz) P,
             NvsSetStr ''uart'' S ESP_OK,
             NvsCommit (if rx_commit_ok e then ESP_OK else ESP_FAIL),
             LogI RX_TASK_TAG (ReadBytes (int (length P)) S),
             LogI RX_TASK_TAG (ReceptionSpeed
               (float_mul (float_div (int (length P)) (unat (rx_ticks e))) hz)),
             NvsGetStr ''uart'' ESP_OK,
             UartWrite S (int k),
             LogI TX_TASK_TAG (Wrote (int k)),
             LogI TX_TASK_TAG (TransmissionSpeed
               (float_mul (float_div (int k) (unat (tx_ticks e))) hz)),
             NvsEraseAll (if erase_ok e then ESP_OK else ESP_FAIL),
             NvsCommit (if tx_commit_ok e then ESP_OK else ESP_FAIL),
             Delay (2000 div portTICK_PERIOD_MS hz),
             Delay (3000 div portTICK_PERIOD_MS hz)] \<and>
          uart_writes (drop (length (trace w)) (trace w')) = [(S, int k)] \<and>
          rx_task_loop hz (e # es) (data, w) = rx_task_loop hz es (d, w')"
    by blast
qed

text \<open>
  C8 with 3 bytes accepted: of the 12 of \<^verbatim>\<open>"hello world!"\<close> in \<^verbatim>\<open>sendData\<close> and in a whole
  iteration, of the 5 of a stored \<^verbatim>\<open>"hello"\<close> in \<^verbatim>\<open>tx_task\<close>.
\<close>

theorem short_write_is_logged_and_not_retried_witness:
  "tx_result (env0\<lparr>arriving := hello, tx_result := TxShort 3\<rparr>) = TxShort 3 \<and>
   c_strlen hello = Some 12 \<and>
   (\<exists>w1. sendData 100 (env0\<lparr>arriving := hello, tx_result := TxShort 3\<rparr>) TX_TASK_TAG hello world0 = Inr w1 \<and>
      trace w1 =
       [UartWrite [104, 101, 108, 108, 111, 32, 119, 111, 114, 108, 100, 33] 3,
        LogI TX_TASK_TAG (Wrote 3),
        LogI TX_TASK_TAG (TransmissionSpeed (Finite 60)),
        NvsEraseAll ESP_OK,
        NvsCommit ESP_OK]) \<and>
   (\<exists>v1. tx_task 100 (env0\<lparr>arriving := hello, tx_result := TxShort 3\<rparr>)
        (world0\<lparr>nvs_live := [''uart'' \<mapsto> [104, 101, 108, 108, 111]]\<rparr>) = Inr v1 \<and>
      trace v1 =
       [NvsGetStr ''uart'' ESP_OK,
        UartWrite [104, 101, 108, 108, 111] 3,
        LogI TX_TASK_TAG (Wrote 3),
        LogI TX_TASK_TAG (TransmissionSpeed (Finite 60)),
        NvsEraseAll ESP_OK,
        NvsCommit ESP_OK,
        Delay 200]) \<and>
   (\<exists>d w'. rx_task_iteration 100 (env0\<lparr>arriving := hello, tx_result := TxShort 3\<rparr>)
        (malloc (RX_BUF_SIZE + 1) zero_heap, world0) = Inr (d, w') \<and>
      trace w' =
       [LogI RX_TASK_TAG Waiting,
        UartRead 100 hello,
        NvsSetStr ''uart'' [104, 101, 108, 108, 111, 32, 119, 111, 114, 108, 100, 33] ESP_OK,
        NvsCommit ESP_OK,
        LogI RX_TASK_TAG (ReadBytes 13 [104, 101, 108, 108, 111, 32, 119, 111, 114, 108, 100, 33]),
        LogI RX_TASK_TAG (ReceptionSpeed (Finite 13)),
        NvsGetStr ''uart'' ESP_OK,
        UartWrite [104, 101, 108, 108, 111, 32, 119, 111, 114, 108, 100, 33] 3,
        LogI TX_TASK_TAG (Wrote 3),
        LogI TX_TASK_TAG (TransmissionSpeed (Finite 60)),
        NvsEraseAll ESP_OK,
        NvsCommit ESP_OK,
        Delay 200,
        Delay 300] \<and>
      uart_writes (trace w') = [([104, 101, 108, 108, 111, 32, 119, 111, 114, 108, 100, 33], 3)] \<and>
      rx_task_loop 100 [env0\<lparr>arriving := hello, tx_result := TxShort 3\<rparr>]
        (malloc (RX_BUF_SIZE + 1) zero_heap, world0) = Inr (d, w'))"
proof -
  let ?e = "env0\<lparr>arriving := hello, tx_result := TxShort 3\<rparr>"
  let ?b = "malloc (RX_BUF_SIZE + 1) zero_heap"
  let ?v = "world0\<lparr>nvs_live := [''uart'' \<mapsto> [104, 101, 108, 108, 111]]\<rparr>"
  let ?s = "[104, 101, 108, 108, 111, 32, 119, 111, 114, 108, 100, 33] :: byte list"
  have tr: "tx_result ?e = TxShort 3"
    by simp
  have l: "c_strlen hello = Some 12" and th: "take 12 hello = ?s" and lh: "length hello = 13"
    by (simp_all add: hello_def)
  have p: "0 < portTICK_PERIOD_MS 100" and pv: "portTICK_PERIOD_MS 100 = 10"
    by (simp_all add: portTICK_PERIOD_MS_def)
  have "nvs_live ?v ''uart'' = Some [104, 101, 108, 108, 111]"
    by simp
  from replay_found [OF this, of ?e]
  have rs: "replay_status ?e ?v = ESP_OK"
    and rb: "replay_buffer ?e ?v =
      [104, 101, 108, 108, 111] @ 0 # drop (Suc (length [104, 101, 108, 108, 111 :: byte]))
        (malloc RX_BUF_SIZE (heap ?e))"
    by (simp_all add: RX_BUF_SIZE_def)
  have lv: "c_strlen (replay_buffer ?e ?v) = Some 5"
    unfolding rb using c_strlen_append_nul [of "[104, 101, 108, 108, 111]"] by simp
  have tv: "take 5 (replay_buffer ?e ?v) = [104, 101, 108, 108, 111]"
    unfolding rb by simp
  have h: "hello \<noteq> []" "length hello < RX_BUF_SIZE" "uart_rx world0 = []" "arriving ?e = hello"
    "nvs_set_ok ?e" "length ?b = RX_BUF_SIZE + 1"
    by (simp_all add: hello_def world0_def env0_def length_malloc RX_BUF_SIZE_def)
  have s: "?s = takeWhile (\<lambda>b. b \<noteq> 0) hello" and ks: "3 < length ?s"
    by (simp_all add: hello_def)
  have fl: "erase_ok env0" "tx_commit_ok env0" "rx_commit_ok env0"
    "tx_ticks env0 = 5" "rx_ticks env0 = 100"
    by (simp_all add: env0_def)
  have t0: "trace world0 = []" "trace ?v = []"
    by (simp_all add: world0_def)
  note inst = short_write_is_logged_and_not_retried [OF tr, where buf = hello and len = 12 and hz = 100
      and logName = TX_TASK_TAG and ?w0.0 = world0 and v = ?v and n = 5
      and P = hello and w = world0 and data = ?b and S = ?s and es = "[]"]
  have k12: "(3::nat) < 12" and k5: "(3::nat) < 5"
    by simp_all
  from inst [THEN conjunct1, THEN mp, OF conjI [OF l k12]]
  have a: "\<exists>w1. sendData 100 ?e TX_TASK_TAG hello world0 = Inr w1 \<and>
      trace w1 =
       [UartWrite ?s 3, LogI TX_TASK_TAG (Wrote 3), LogI TX_TASK_TAG (TransmissionSpeed (Finite 60)),
        NvsEraseAll ESP_OK, NvsCommit ESP_OK]"
    by (simp add: fl t0 th float_mul_def float_div_def)
  from inst [THEN conjunct2, THEN conjunct1, THEN mp, OF conjI [OF lv conjI [OF k5 p]]]
  have b: "\<exists>v1. tx_task 100 ?e ?v = Inr v1 \<and>
      trace v1 =
       [NvsGetStr ''uart'' ESP_OK, UartWrite [104, 101, 108, 108, 111] 3,
        LogI TX_TASK_TAG (Wrote 3), LogI TX_TASK_TAG (TransmissionSpeed (Finite 60)),
        NvsEraseAll ESP_OK, NvsCommit ESP_OK, Delay 200]"
    unfolding rs tv by (simp add: fl t0 pv float_mul_def float_div_def)
  have pre: "hello \<noteq> [] \<and> length hello < RX_BUF_SIZE \<and> uart_rx world0 = [] \<and> arriving ?e = hello \<and>
      nvs_set_ok ?e \<and> length ?b = RX_BUF_SIZE + 1 \<and> 0 < portTICK_PERIOD_MS 100 \<and>
      ?s = takeWhile (\<lambda>b. b \<noteq> 0) hello \<and> 3 < length ?s"
    by (intro conjI h p s ks)
  from inst [THEN conjunct2, THEN conjunct2, THEN mp, OF pre]
  have c: "\<exists>d w'. rx_task_iteration 100 ?e (?b, world0) = Inr (d, w') \<and>
      trace w' =
       [LogI RX_TASK_TAG Waiting,
        UartRead 100 hello,
        NvsSetStr ''uart'' ?s ESP_OK,
        NvsCommit ESP_OK,
        LogI RX_TASK_TAG (ReadBytes 13 ?s),
        LogI RX_TASK_TAG (ReceptionSpeed (Finite 13)),
        NvsGetStr ''uart'' ESP_OK,
        UartWrite ?s 3,
        LogI TX_TASK_TAG (Wrote 3),
        LogI TX_TASK_TAG (TransmissionSpeed (Finite 60)),
        NvsEraseAll ESP_OK,
        NvsCommit ESP_OK,
        Delay 200,
        Delay 300] \<and>
      uart_writes (trace w') = [(?s, 3)] \<and>
      rx_task_loop 100 [?e] (?b, world0) = Inr (d, w')"
    by (simp add: fl t0 pv lh float_mul_def float_div_def)
  from tr l a b c show ?thesis
    by blast
qed

subsection \<open>C9\<close>

text \<open>
  Claim C9. In \<^verbatim>\<open>tx_task\<close>, whatever the read reported, the one UART write submits the bytes
  of the replay buffer before its first null byte: their number is the \<^verbatim>\<open>strlen\<close> of the
  buffer. The length the read stored in \<^verbatim>\<open>data_size\<close> is passed to nothing. (When the buffer
  holds no null byte \<^verbatim>\<open>strlen\<close> is undefined and \<^verbatim>\<open>tx_task\<close> is a fault.)
\<close>

theorem replay_length_is_strlen:
  assumes "c_strlen (replay_buffer e w) = Some n" and "0 < portTICK_PERIOD_MS hz"
  shows "\<exists>w'. tx_task hz e w = Inr w' \<and>
     uart_writes (drop (length (trace w)) (trace w')) =
       [(take n (replay_buffer e w), int (tx_accepted (tx_result e) n))] \<and>
     length (take n (replay_buffer e w)) = n"
proof -
  have "length (take n (replay_buffer e w)) = n"
    using c_strlen_takeWhile [OF assms(1)] by (metis length_take min.absorb2 length_takeWhile_le)
  with tx_task_Inr [OF assms] show ?thesis
    by (auto simp: TX_TASK_TAG_def)
qed

text \<open>
  C9 when the read reported not-found: the length is that of the stale block, 2.
\<close>

theorem replay_length_is_strlen_witness:
  "c_strlen (replay_buffer (env0\<lparr>heap := stale_heap\<rparr>) world0) = Some 2 \<and>
   replay_status (env0\<lparr>heap := stale_heap\<rparr>) world0 = ESP_ERR_NVS_NOT_FOUND \<and>
   (\<exists>w'. tx_task 100 (env0\<lparr>heap := stale_heap\<rparr>) world0 = Inr w' \<and>
      uart_writes (trace w') = [([65, 65], 2)])"
proof -
  let ?e = "env0\<lparr>heap := stale_heap\<rparr>"
  have nf: "nvs_live world0 ''uart'' = None"
    by (simp add: world0_def)
  have b: "replay_buffer ?e world0 = malloc RX_BUF_SIZE stale_heap"
    and s: "replay_status ?e world0 = ESP_ERR_NVS_NOT_FOUND"
    using replay_not_found [OF nf, of ?e] by simp_all
  have l: "c_strlen (replay_buffer ?e world0) = Some 2"
    and t: "take 2 (replay_buffer ?e world0) = map stale_heap [0..<2]"
    unfolding b by (rule c_strlen_malloc; simp add: RX_BUF_SIZE_def stale_heap_def)+
  have u: "[0..<2] = [0, Suc 0]"
    by (simp add: upt_rec)
  have p: "0 < portTICK_PERIOD_MS 100"
    by (simp add: portTICK_PERIOD_MS_def)
  from replay_length_is_strlen [OF l p] l s t show ?thesis
    by (auto simp: world0_def env0_def u stale_heap_def)
qed

subsection \<open>C10\<close>

text \<open>
  Claim C10 says that after a full cycle the controller waits a delay of 2 to 3 seconds
  before its next read. It is not so: the delay of \<^verbatim>\<open>tx_task\<close> and the delay at the end of
  the loop body both run. At 100 ticks per second, 200 + 300 ticks of 10 ms, 5 seconds.
\<close>

theorem cooldown_counterexample:
  "delays (iteration_events (rx_task_iteration 100 (env0\<lparr>arriving := hello\<rparr>)
       (malloc (RX_BUF_SIZE + 1) zero_heap, world0))) = [200, 300] \<and>
   sum_list (delays (iteration_events (rx_task_iteration 100 (env0\<lparr>arriving := hello\<rparr>)
       (malloc (RX_BUF_SIZE + 1) zero_heap, world0)))) * portTICK_PERIOD_MS 100 = 5000"
proof -
  let ?e = "env0\<lparr>arriving := hello\<rparr>"
  let ?b = "malloc (RX_BUF_SIZE + 1) zero_heap"
  have h: "hello \<noteq> []" "length hello < RX_BUF_SIZE" "uart_rx world0 = []" "arriving ?e = hello"
    "nvs_set_ok ?e" "length ?b = RX_BUF_SIZE + 1" "0 < portTICK_PERIOD_MS 100"
    by (simp_all add: hello_def world0_def env0_def length_malloc RX_BUF_SIZE_def portTICK_PERIOD_MS_def)
  from nominal_cycle [OF h refl]
  obtain d w' where r: "rx_task_iteration 100 ?e (?b, world0) = Inr (d, w')"
    and t: "delays (trace w') = [200, 300]"
    by (auto simp: world0_def portTICK_PERIOD_MS_def RX_TASK_TAG_def TX_TASK_TAG_def)
  show ?thesis
    unfolding r by (simp add: t portTICK_PERIOD_MS_def)
qed

text \<open>
  Claim C10, as the code has it. An iteration that received something ends, after the
  erase and its commit, with two delays and nothing else: \<open>2000 div portTICK_PERIOD_MS\<close>
  ticks in \<^verbatim>\<open>tx_task\<close>, then \<open>3000 div portTICK_PERIOD_MS\<close> ticks in \<^verbatim>\<open>rx_task\<close>. When the tick
  rate divides 1000 these are the ticks of 2 seconds and of 3 seconds, \<open>5 * hz\<close> ticks in
  all: 5 seconds.
\<close>

theorem cooldown_is_two_delays:
  assumes "rx_task_iteration hz e (data, w) = Inr (d, w')" and "iteration_receive hz e w \<noteq> []"
  shows "delays (drop (length (trace w)) (trace w')) =
       [2000 div portTICK_PERIOD_MS hz, 3000 div portTICK_PERIOD_MS hz] \<and>
     (\<exists>evs. trace w' = trace w @ evs @
        [NvsEraseAll (if erase_ok e then ESP_OK else ESP_FAIL),
         NvsCommit (if tx_commit_ok e then ESP_OK else ESP_FAIL),
         Delay (2000 div portTICK_PERIOD_MS hz),
         Delay (3000 div portTICK_PERIOD_MS hz)]) \<and>
     (hz dvd 1000 \<longrightarrow>
        2000 div portTICK_PERIOD_MS hz = 2 * hz \<and>
        3000 div portTICK_PERIOD_MS hz = 3 * hz \<and>
        sum_list (delays (drop (length (trace w)) (trace w'))) = 5 * hz)"
proof -
  let ?p = "portTICK_PERIOD_MS hz"
  from assms(1) refl assms(2)
  have c: "0 < ?p \<and> delays (drop (length (trace w)) (trace w')) = [2000 div ?p, 3000 div ?p] \<and>
     (\<exists>evs. trace w' = trace w @ evs @
        [NvsEraseAll (if erase_ok e then ESP_OK else ESP_FAIL),
         NvsCommit (if tx_commit_ok e then ESP_OK else ESP_FAIL),
         Delay (2000 div ?p), Delay (3000 div ?p)])"
    by (rule rx_task_iteration_InrE) (simp add: RX_TASK_TAG_def TX_TASK_TAG_def)
  then have p: "0 < ?p" by simp
  have t: "2000 div ?p = 2 * hz \<and> 3000 div ?p = 3 * hz" if "hz dvd 1000"
  proof -
    from that obtain c where c: "1000 = hz * c" by (auto simp: dvd_def)
    from p have hz: "0 < hz" by (rule hz_pos)
    have pc: "?p = c"
      unfolding portTICK_PERIOD_MS_def c using hz by simp
    with p have c0: "0 < c" by simp
    have "2 * (hz * c) = 2000" and "3 * (hz * c) = 3000"
      unfolding c [symmetric] by simp_all
    then have e2: "2000 = (2 * hz) * c" and e3: "3000 = (3 * hz) * c"
      by (simp_all only: mult.assoc)
    have "(2 * hz) * c div c = 2 * hz" and "(3 * hz) * c div c = 3 * hz"
      using c0 by simp_all
    then have "2000 div c = 2 * hz" and "3000 div c = 3 * hz"
      unfolding e2 [symmetric] e3 [symmetric] by simp_all
    then show ?thesis
      unfolding pc by simp
  qed
  from c t show ?thesis
    by auto
qed

text \<open>
  The amended C10 at 100 ticks per second: 200 and 300 ticks, 500 in all.
\<close>

theorem cooldown_is_two_delays_witness:
  "(100::nat) dvd 1000 \<and>
   (\<exists>d w'. rx_task_iteration 100 (env0\<lparr>arriving := hello\<rparr>)
        (malloc (RX_BUF_SIZE + 1) zero_heap, world0) = Inr (d, w') \<and>
      delays (trace w') = [200, 300] \<and>
      sum_list (delays (trace w')) = 5 * 100)"
proof -
  let ?e = "env0\<lparr>arriving := hello\<rparr>"
  let ?b = "malloc (RX_BUF_SIZE + 1) zero_heap"
  have h: "hello \<noteq> []" "length hello < RX_BUF_SIZE" "uart_rx world0 = []" "arriving ?e = hello"
    "nvs_set_ok ?e" "length ?b = RX_BUF_SIZE + 1" "0 < portTICK_PERIOD_MS 100"
    by (simp_all add: hello_def world0_def env0_def length_malloc RX_BUF_SIZE_def portTICK_PERIOD_MS_def)
  have g: "iteration_receive 100 ?e world0 \<noteq> []"
    by (simp add: iteration_receive_eq env0_def world0_def hello_def RX_BUF_SIZE_def
        uart_rx_buffer_size_def)
  from nominal_cycle [OF h refl]
  obtain d w' where r: "rx_task_iteration 100 ?e (?b, world0) = Inr (d, w')"
    by blast
  have p: "portTICK_PERIOD_MS 100 = 10"
    by (simp add: portTICK_PERIOD_MS_def)
  have t0: "trace world0 = []"
    by (simp add: world0_def)
  have dv: "(100::nat) dvd 1000"
    by simp
  from cooldown_is_two_delays [OF r g] dv
  have "delays (trace w') = [200, 300] \<and> sum_list (delays (trace w')) = 5 * 100"
    by (simp add: p t0)
  with r dv show ?thesis
    by blast
qed

end
